theory Spec2Isabelle
  imports Complex_Main "HOL-Library.Word"
begin

section \<open>Tensors\<close>

text \<open>
  The trackers of \<^verbatim>\<open>kronfluence/module/tracker/factor.py\<close> keep their statistics in
  torch tensors. A tensor is modelled by its dtype, its device, its shape and its entries.
  Entries are real numbers: the floating-point rounding of an operation or of a cast is not
  modelled, so every statement about entries is one over exact arithmetic, and
  \<^verbatim>\<open>.to(dtype=...)\<close> changes the dtype tag only. The processed counts are int64 tensors of
  shape \<^verbatim>\<open>(1,)\<close>; their entry is a 64-bit word, so that \<^verbatim>\<open>add_\<close> wraps as it does in
  torch.

  Three shapes occur in the trackers and each has its own record: a matrix (the covariance,
  eigenvector and Lambda factors, and the flattened activations and gradients), a batch of
  matrices (the per-sample gradient, of shape \<^verbatim>\<open>(batch, r, c)\<close>) and a count. The raw
  inputs of the hooks (a module's input activation and the gradient of its output) have
  any shape; the trackers only cast, move and cache them and hand them to the module.
\<close>

datatype dtype = Float16 | BFloat16 | Float32 | Float64 | Int64

datatype device = CPU | CUDA

record meta =
  dtype :: dtype
  device :: device

record tensor = meta +
  shape :: "nat list"
  elems :: "real list"

text \<open>\<open>nrows\<close> is \<^verbatim>\<open>size(0)\<close> and \<open>ncols\<close> is \<^verbatim>\<open>size(1)\<close>; \<open>rows\<close> lists the rows.\<close>

record matrix = meta +
  nrows :: nat
  ncols :: nat
  rows :: "real list list"

record batch = meta +
  size0 :: nat
  size1 :: nat
  size2 :: nat
  samples :: "real list list list"

record num = meta +
  item :: "64 word"

definition wf_matrix :: "matrix \<Rightarrow> bool" where
  "wf_matrix m =
     (length (rows m) = nrows m \<and> list_all (\<lambda>r. length r = ncols m) (rows m))"

definition wf_batch :: "batch \<Rightarrow> bool" where
  "wf_batch g =
     (length (samples g) = size0 g \<and>
      list_all (\<lambda>s. length s = size1 g \<and> list_all (\<lambda>r. length r = size2 g) s) (samples g))"

text \<open>The exceptions the trackers can raise, or let through from Python and torch.\<close>

datatype error =
    FactorsNotFoundError string
  | CacheNotFoundError
  | AttributeError
  | IndexError
  | TypeError
  | RuntimeError

text \<open>
  A call mutates its objects in place and may then raise: the result of a call is the
  exception, if any, together with the state the call leaves behind.
\<close>

type_synonym 's result = "error option \<times> 's"

subsection \<open>Casting and moving\<close>

definition to_dtype :: "dtype \<Rightarrow> 'a meta_scheme \<Rightarrow> 'a meta_scheme" where
  "to_dtype dt x = x\<lparr>dtype := dt\<rparr>"

definition to_device :: "device \<Rightarrow> 'a meta_scheme \<Rightarrow> 'a meta_scheme" where
  "to_device dv x = x\<lparr>device := dv\<rparr>"

definition to_dtype_device :: "dtype \<Rightarrow> device \<Rightarrow> 'a meta_scheme \<Rightarrow> 'a meta_scheme" where
  "to_dtype_device dt dv x = x\<lparr>dtype := dt, device := dv\<rparr>"

definition cuda :: "'a meta_scheme \<Rightarrow> 'a meta_scheme" where
  "cuda x = x\<lparr>device := CUDA\<rparr>"

text \<open>\<^verbatim>\<open>detach()\<close> leaves the autograd graph, which is not modelled: the value is the same.\<close>

definition detach :: "tensor \<Rightarrow> tensor" where
  "detach x = x"

subsection \<open>Arithmetic on the entries\<close>

definition zeros_rows :: "nat \<Rightarrow> nat \<Rightarrow> real list list" where
  "zeros_rows r c = replicate r (replicate c 0)"

definition vadd :: "real list \<Rightarrow> real list \<Rightarrow> real list" where
  "vadd xs ys = map2 (+) xs ys"

definition madd :: "real list list \<Rightarrow> real list list \<Rightarrow> real list list" where
  "madd A B = map2 vadd A B"

definition dot :: "real list \<Rightarrow> real list \<Rightarrow> real" where
  "dot xs ys = sum_list (map2 (*) xs ys)"

definition column :: "nat \<Rightarrow> real list list \<Rightarrow> real list" where
  "column j A = map (\<lambda>r. r ! j) A"

text \<open>The transpose of a matrix with \<open>c\<close> columns, and the product with a matrix of \<open>c\<close> columns.\<close>

definition transpose_rows :: "nat \<Rightarrow> real list list \<Rightarrow> real list list" where
  "transpose_rows c A = map (\<lambda>j. column j A) [0..<c]"

definition mm :: "real list list \<Rightarrow> real list list \<Rightarrow> nat \<Rightarrow> real list list" where
  "mm A B c = map (\<lambda>a. map (\<lambda>j. dot a (column j B)) [0..<c]) A"

definition square_rows :: "real list list \<Rightarrow> real list list" where
  "square_rows A = map (map (\<lambda>x. x * x)) A"

text \<open>Broadcasting: an operand of size 1 in a dimension is repeated along it.\<close>

definition expand :: "nat \<Rightarrow> 'a list \<Rightarrow> 'a list" where
  "expand n xs = (if length xs = n then xs else replicate n (hd xs))"

definition broadcastable :: "nat \<Rightarrow> nat \<Rightarrow> bool" where
  "broadcastable k n = (k = n \<or> k = 1)"

subsection \<open>The torch operations the trackers call\<close>

definition zeros_num :: "device \<Rightarrow> num" where
  "zeros_num dv = \<lparr>dtype = Int64, device = dv, item = 0\<rparr>"

definition zeros_matrix :: "nat \<Rightarrow> nat \<Rightarrow> dtype \<Rightarrow> device \<Rightarrow> matrix" where
  "zeros_matrix r c dt dv =
     \<lparr>dtype = dt, device = dv, nrows = r, ncols = c, rows = zeros_rows r c\<rparr>"

definition zeros_like :: "batch \<Rightarrow> batch" where
  "zeros_like g = g\<lparr>samples := replicate (size0 g) (zeros_rows (size1 g) (size2 g))\<rparr>"

text \<open>\<^verbatim>\<open>m.t()\<close>.\<close>

definition t_matrix :: "matrix \<Rightarrow> matrix" where
  "t_matrix m =
     m\<lparr>nrows := ncols m, ncols := nrows m, rows := transpose_rows (ncols m) (rows m)\<rparr>"

text \<open>
  \<^verbatim>\<open>torch.matmul\<close> needs operands of one dtype on one device whose inner dimensions
  agree; a matrix operand is applied to every sample of a batch operand.
\<close>

definition matmul_mm :: "matrix \<Rightarrow> matrix \<Rightarrow> error + matrix" where
  "matmul_mm a b =
     (if dtype a \<noteq> dtype b \<or> device a \<noteq> device b \<or> ncols a \<noteq> nrows b then Inl RuntimeError
      else Inr \<lparr>dtype = dtype a, device = device a, nrows = nrows a, ncols = ncols b,
                rows = mm (rows a) (rows b) (ncols b)\<rparr>)"

definition matmul_bm :: "batch \<Rightarrow> matrix \<Rightarrow> error + batch" where
  "matmul_bm g q =
     (if dtype g \<noteq> dtype q \<or> device g \<noteq> device q \<or> size2 g \<noteq> nrows q then Inl RuntimeError
      else Inr \<lparr>dtype = dtype g, device = device g, size0 = size0 g, size1 = size1 g,
                size2 = ncols q, samples = map (\<lambda>s. mm s (rows q) (ncols q)) (samples g)\<rparr>)"

definition matmul_mb :: "matrix \<Rightarrow> batch \<Rightarrow> error + batch" where
  "matmul_mb q g =
     (if dtype q \<noteq> dtype g \<or> device q \<noteq> device g \<or> ncols q \<noteq> size1 g then Inl RuntimeError
      else Inr \<lparr>dtype = dtype g, device = device g, size0 = size0 g, size1 = nrows q,
                size2 = size2 g, samples = map (\<lambda>s. mm (rows q) s (size2 g)) (samples g)\<rparr>)"

text \<open>\<^verbatim>\<open>g[i]\<close>.\<close>

definition getitem :: "batch \<Rightarrow> nat \<Rightarrow> error + matrix" where
  "getitem g i =
     (if i < size0 g
      then Inr \<lparr>dtype = dtype g, device = device g, nrows = size1 g, ncols = size2 g,
                rows = samples g ! i\<rparr>
      else Inl IndexError)"

definition square_matrix :: "matrix \<Rightarrow> matrix" where
  "square_matrix m = m\<lparr>rows := square_rows (rows m)\<rparr>"

definition square_batch :: "batch \<Rightarrow> batch" where
  "square_batch g = g\<lparr>samples := map square_rows (samples g)\<rparr>"

text \<open>\<^verbatim>\<open>g.sum(dim=0)\<close>.\<close>

definition sum_dim0 :: "batch \<Rightarrow> matrix" where
  "sum_dim0 g =
     \<lparr>dtype = dtype g, device = device g, nrows = size1 g, ncols = size2 g,
      rows = foldr madd (samples g) (zeros_rows (size1 g) (size2 g))\<rparr>"

text \<open>
  In-place addition keeps the shape and the dtype of \<open>self\<close>: the other operand must be on
  the same device and broadcastable to the shape of \<open>self\<close>, and a floating-point operand
  cannot be added into an integer tensor.
\<close>

definition add_matrix :: "matrix \<Rightarrow> matrix \<Rightarrow> error + matrix" where
  "add_matrix self other =
     (if device self \<noteq> device other \<or> (dtype self = Int64 \<and> dtype other \<noteq> Int64)
         \<or> \<not> broadcastable (nrows other) (nrows self)
         \<or> \<not> broadcastable (ncols other) (ncols self)
      then Inl RuntimeError
      else Inr (self\<lparr>rows :=
             madd (rows self) (expand (nrows self) (map (expand (ncols self)) (rows other)))\<rparr>))"

definition add_batch :: "batch \<Rightarrow> batch \<Rightarrow> error + batch" where
  "add_batch self other =
     (if device self \<noteq> device other \<or> (dtype self = Int64 \<and> dtype other \<noteq> Int64)
         \<or> \<not> broadcastable (size0 other) (size0 self)
         \<or> \<not> broadcastable (size1 other) (size1 self)
         \<or> \<not> broadcastable (size2 other) (size2 self)
      then Inl RuntimeError
      else Inr (self\<lparr>samples :=
             map2 madd (samples self)
               (expand (size0 self)
                  (map (\<lambda>s. expand (size1 self) (map (expand (size2 self)) s)) (samples other)))\<rparr>))"

text \<open>
  \<^verbatim>\<open>self.addmm_(mat1, mat2)\<close> adds \<^verbatim>\<open>mat1 @ mat2\<close> to \<open>self\<close> in place: the three
  tensors share a dtype and a device and \<open>self\<close> has the shape of the product.
\<close>

definition addmm :: "matrix \<Rightarrow> matrix \<Rightarrow> matrix \<Rightarrow> error + matrix" where
  "addmm self mat1 mat2 =
     (if dtype mat1 \<noteq> dtype mat2 \<or> dtype self \<noteq> dtype mat1
         \<or> device mat1 \<noteq> device mat2 \<or> device self \<noteq> device mat1
         \<or> ncols mat1 \<noteq> nrows mat2 \<or> nrows self \<noteq> nrows mat1 \<or> ncols self \<noteq> ncols mat2
      then Inl RuntimeError
      else Inr (self\<lparr>rows := madd (rows self) (mm (rows mat1) (rows mat2) (ncols mat2))\<rparr>))"

text \<open>
  An element count is a Python int or a tensor (\<^verbatim>\<open>Union[int, torch.Tensor]\<close>); its
  value is taken in int64. A tensor made with \<^verbatim>\<open>device=None\<close> is on the default device.
\<close>

datatype count = IntCount "64 word" | TensorCount device "64 word"

fun count_value :: "count \<Rightarrow> 64 word" where
  "count_value (IntCount n) = n"
| "count_value (TensorCount dv n) = n"

definition default_device :: device where
  "default_device = CPU"

fun count_device :: "count \<Rightarrow> device" where
  "count_device (IntCount n) = default_device"
| "count_device (TensorCount dv n) = dv"

definition add_num :: "num \<Rightarrow> 64 word \<Rightarrow> num" where
  "add_num self n = self\<lparr>item := item self + n\<rparr>"

section \<open>The module: its storage, its configuration and its capabilities\<close>

text \<open>
  \<^verbatim>\<open>kronfluence/utils/constants.py\<close> is not among the sources. The factor names the
  trackers import from it are the constructors below.
\<close>

datatype factor_name =
    ACTIVATION_COVARIANCE_MATRIX_NAME
  | ACTIVATION_EIGENVECTORS_NAME
  | GRADIENT_COVARIANCE_MATRIX_NAME
  | GRADIENT_EIGENVECTORS_NAME
  | LAMBDA_MATRIX_NAME
  | NUM_ACTIVATION_COVARIANCE_PROCESSED
  | NUM_GRADIENT_COVARIANCE_PROCESSED
  | NUM_LAMBDA_PROCESSED

text \<open>
  Modelled from the spec: the three lists of factor names of
  \<^verbatim>\<open>kronfluence/utils/constants.py\<close>. The covariance factors are the two covariance
  matrices and their two processed counts, the eigendecomposition factors the two sets of
  eigenvectors, the Lambda factors the Lambda matrix and its processed count.
\<close>

definition COVARIANCE_FACTOR_NAMES :: "factor_name list" where
  "COVARIANCE_FACTOR_NAMES =
     [ACTIVATION_COVARIANCE_MATRIX_NAME, GRADIENT_COVARIANCE_MATRIX_NAME,
      NUM_ACTIVATION_COVARIANCE_PROCESSED, NUM_GRADIENT_COVARIANCE_PROCESSED]"

definition EIGENDECOMPOSITION_FACTOR_NAMES :: "factor_name list" where
  "EIGENDECOMPOSITION_FACTOR_NAMES = [ACTIVATION_EIGENVECTORS_NAME, GRADIENT_EIGENVECTORS_NAME]"

definition LAMBDA_FACTOR_NAMES :: "factor_name list" where
  "LAMBDA_FACTOR_NAMES = [LAMBDA_MATRIX_NAME, NUM_LAMBDA_PROCESSED]"

text \<open>
  \<^verbatim>\<open>module.storage\<close> maps every factor name to a tensor or to \<^verbatim>\<open>None\<close>: the wrapped
  module creates it with every name present, and the trackers never remove a key for good
  (\<^verbatim>\<open>del storage[name]\<close> is followed at once by \<^verbatim>\<open>storage[name] = None\<close>). The
  record has one field for each name; a matrix factor holds a matrix and a count holds
  an int64 tensor.
\<close>

record storage =
  activation_covariance_matrix :: "matrix option"
  activation_eigenvectors :: "matrix option"
  gradient_covariance_matrix :: "matrix option"
  gradient_eigenvectors :: "matrix option"
  lambda_matrix :: "matrix option"
  num_activation_covariance_processed :: "num option"
  num_gradient_covariance_processed :: "num option"
  num_lambda_processed :: "num option"

text \<open>What \<^verbatim>\<open>storage[name]\<close> holds, for a name given at run time.\<close>

datatype factor = Matrix matrix | Num num

fun lookup :: "storage \<Rightarrow> factor_name \<Rightarrow> factor option" where
  "lookup st ACTIVATION_COVARIANCE_MATRIX_NAME = map_option Matrix (activation_covariance_matrix st)"
| "lookup st ACTIVATION_EIGENVECTORS_NAME = map_option Matrix (activation_eigenvectors st)"
| "lookup st GRADIENT_COVARIANCE_MATRIX_NAME = map_option Matrix (gradient_covariance_matrix st)"
| "lookup st GRADIENT_EIGENVECTORS_NAME = map_option Matrix (gradient_eigenvectors st)"
| "lookup st LAMBDA_MATRIX_NAME = map_option Matrix (lambda_matrix st)"
| "lookup st NUM_ACTIVATION_COVARIANCE_PROCESSED = map_option Num (num_activation_covariance_processed st)"
| "lookup st NUM_GRADIENT_COVARIANCE_PROCESSED = map_option Num (num_gradient_covariance_processed st)"
| "lookup st NUM_LAMBDA_PROCESSED = map_option Num (num_lambda_processed st)"

text \<open>\<^verbatim>\<open>storage[name] = f(storage[name])\<close> for an operation that acts on any tensor.\<close>

fun modify :: "(matrix \<Rightarrow> matrix) \<Rightarrow> (num \<Rightarrow> num) \<Rightarrow> factor_name \<Rightarrow> storage \<Rightarrow> storage" where
  "modify f g ACTIVATION_COVARIANCE_MATRIX_NAME st =
     st\<lparr>activation_covariance_matrix := map_option f (activation_covariance_matrix st)\<rparr>"
| "modify f g ACTIVATION_EIGENVECTORS_NAME st =
     st\<lparr>activation_eigenvectors := map_option f (activation_eigenvectors st)\<rparr>"
| "modify f g GRADIENT_COVARIANCE_MATRIX_NAME st =
     st\<lparr>gradient_covariance_matrix := map_option f (gradient_covariance_matrix st)\<rparr>"
| "modify f g GRADIENT_EIGENVECTORS_NAME st =
     st\<lparr>gradient_eigenvectors := map_option f (gradient_eigenvectors st)\<rparr>"
| "modify f g LAMBDA_MATRIX_NAME st =
     st\<lparr>lambda_matrix := map_option f (lambda_matrix st)\<rparr>"
| "modify f g NUM_ACTIVATION_COVARIANCE_PROCESSED st =
     st\<lparr>num_activation_covariance_processed := map_option g (num_activation_covariance_processed st)\<rparr>"
| "modify f g NUM_GRADIENT_COVARIANCE_PROCESSED st =
     st\<lparr>num_gradient_covariance_processed := map_option g (num_gradient_covariance_processed st)\<rparr>"
| "modify f g NUM_LAMBDA_PROCESSED st =
     st\<lparr>num_lambda_processed := map_option g (num_lambda_processed st)\<rparr>"

text \<open>\<^verbatim>\<open>del storage[name]; storage[name] = None\<close>.\<close>

fun set_None :: "factor_name \<Rightarrow> storage \<Rightarrow> storage" where
  "set_None ACTIVATION_COVARIANCE_MATRIX_NAME st = st\<lparr>activation_covariance_matrix := None\<rparr>"
| "set_None ACTIVATION_EIGENVECTORS_NAME st = st\<lparr>activation_eigenvectors := None\<rparr>"
| "set_None GRADIENT_COVARIANCE_MATRIX_NAME st = st\<lparr>gradient_covariance_matrix := None\<rparr>"
| "set_None GRADIENT_EIGENVECTORS_NAME st = st\<lparr>gradient_eigenvectors := None\<rparr>"
| "set_None LAMBDA_MATRIX_NAME st = st\<lparr>lambda_matrix := None\<rparr>"
| "set_None NUM_ACTIVATION_COVARIANCE_PROCESSED st = st\<lparr>num_activation_covariance_processed := None\<rparr>"
| "set_None NUM_GRADIENT_COVARIANCE_PROCESSED st = st\<lparr>num_gradient_covariance_processed := None\<rparr>"
| "set_None NUM_LAMBDA_PROCESSED st = st\<lparr>num_lambda_processed := None\<rparr>"

definition empty_storage :: storage where
  "empty_storage =
     \<lparr>activation_covariance_matrix = None, activation_eigenvectors = None,
      gradient_covariance_matrix = None, gradient_eigenvectors = None, lambda_matrix = None,
      num_activation_covariance_processed = None, num_gradient_covariance_processed = None,
      num_lambda_processed = None\<rparr>"

text \<open>\<^verbatim>\<open>module.factor_args\<close>, with the options the trackers read.\<close>

record factor_args =
  strategy :: string
  activation_covariance_dtype :: dtype
  gradient_covariance_dtype :: dtype
  per_sample_gradient_dtype :: dtype
  lambda_dtype :: dtype
  has_shared_parameters :: bool
  offload_activations_to_cpu :: bool
  use_iterative_lambda_aggregation :: bool

text \<open>
  What the trackers consume and do not own: the capabilities of the wrapped module, the
  strategy registry \<^verbatim>\<open>FactorConfig.CONFIGS\<close>, the gradient rescaling of the tracker base
  class, and the distributed context. \<open>dist_reduce_matrix\<close> and \<open>dist_reduce_num\<close> give
  what a tensor of this process holds after
  \<^verbatim>\<open>dist.reduce(tensor, op=dist.ReduceOp.SUM, dst=0)\<close>.
\<close>

record module =
  factor_args :: factor_args
  get_flattened_activation :: "tensor \<Rightarrow> matrix \<times> count"
  get_flattened_gradient :: "tensor \<Rightarrow> matrix \<times> count"
  compute_per_sample_gradient :: "tensor \<Rightarrow> tensor \<Rightarrow> batch"
  scale_output_gradient :: "tensor \<Rightarrow> dtype \<Rightarrow> tensor"
  requires_eigendecomposition_for_lambda :: "string \<Rightarrow> bool"
  dist_is_initialized :: bool
  cuda_is_available :: bool
  dist_reduce_matrix :: "matrix \<Rightarrow> matrix"
  dist_reduce_num :: "num \<Rightarrow> num"

section \<open>CovarianceTracker\<close>

text \<open>
  \<^verbatim>\<open>_update_activation_covariance_matrix\<close>. The count is added before the matrix
  product is: when \<^verbatim>\<open>addmm_\<close> raises, the count stays incremented. The count is a
  Python int or a tensor on the device the stored count was allocated on, so adding it
  does not raise.
\<close>

definition update_activation_covariance_matrix :: "module \<Rightarrow> tensor \<Rightarrow> storage \<Rightarrow> storage result" where
  "update_activation_covariance_matrix m input_activation st =
     (let (flattened_activation, count) = get_flattened_activation m input_activation;
          st1 = (if num_activation_covariance_processed st = None
                 then (let dimension = ncols flattened_activation
                       in st\<lparr>num_activation_covariance_processed :=
                               Some (zeros_num (count_device count)),
                             activation_covariance_matrix :=
                               Some (zeros_matrix dimension dimension
                                      (dtype flattened_activation) (device flattened_activation))\<rparr>)
                 else st)
      in case num_activation_covariance_processed st1 of
           None \<Rightarrow> (Some AttributeError, st1)
         | Some n \<Rightarrow>
             (let st2 = st1\<lparr>num_activation_covariance_processed :=
                              Some (add_num n (count_value count))\<rparr>
              in case activation_covariance_matrix st2 of
                   None \<Rightarrow> (Some AttributeError, st2)
                 | Some c \<Rightarrow>
                     (case addmm c (t_matrix flattened_activation) flattened_activation of
                        Inl e \<Rightarrow> (Some e, st2)
                      | Inr c' \<Rightarrow> (None, st2\<lparr>activation_covariance_matrix := Some c'\<rparr>))))"

text \<open>\<^verbatim>\<open>_update_gradient_covariance_matrix\<close>.\<close>

definition update_gradient_covariance_matrix :: "module \<Rightarrow> tensor \<Rightarrow> storage \<Rightarrow> storage result" where
  "update_gradient_covariance_matrix m output_gradient st =
     (let (flattened_gradient, count) = get_flattened_gradient m output_gradient;
          st1 = (if num_gradient_covariance_processed st = None
                 then (let dimension = ncols flattened_gradient
                       in st\<lparr>num_gradient_covariance_processed :=
                               Some (zeros_num (count_device count)),
                             gradient_covariance_matrix :=
                               Some (zeros_matrix dimension dimension
                                      (dtype flattened_gradient) (device flattened_gradient))\<rparr>)
                 else st)
      in case num_gradient_covariance_processed st1 of
           None \<Rightarrow> (Some AttributeError, st1)
         | Some n \<Rightarrow>
             (let st2 = st1\<lparr>num_gradient_covariance_processed :=
                              Some (add_num n (count_value count))\<rparr>
              in case gradient_covariance_matrix st2 of
                   None \<Rightarrow> (Some AttributeError, st2)
                 | Some c \<Rightarrow>
                     (case addmm c (t_matrix flattened_gradient) flattened_gradient of
                        Inl e \<Rightarrow> (Some e, st2)
                      | Inr c' \<Rightarrow> (None, st2\<lparr>gradient_covariance_matrix := Some c'\<rparr>))))"

text \<open>
  The hooks of \<^verbatim>\<open>CovarianceTracker.register_hooks\<close>. The argument of the forward hook
  is \<^verbatim>\<open>inputs[0]\<close>; the hook ends by registering \<open>backward_hook\<close> on the module's
  output, which the host fires with the gradient of that output.
\<close>

definition covariance_forward_hook :: "module \<Rightarrow> tensor \<Rightarrow> storage \<Rightarrow> storage result" where
  "covariance_forward_hook m inputs0 st =
     (let input_activation =
            to_dtype (activation_covariance_dtype (factor_args m)) (detach inputs0)
      in update_activation_covariance_matrix m input_activation st)"

definition covariance_backward_hook :: "module \<Rightarrow> tensor \<Rightarrow> storage \<Rightarrow> storage result" where
  "covariance_backward_hook m output_gradient st =
     (let output_gradient' =
            scale_output_gradient m output_gradient (gradient_covariance_dtype (factor_args m))
      in update_gradient_covariance_matrix m output_gradient' st)"

text \<open>
  The loop of \<^verbatim>\<open>exist\<close> and of \<^verbatim>\<open>_eigendecomposition_results_exist\<close>: it returns
  \<^verbatim>\<open>False\<close> at the first name whose entry is \<^verbatim>\<open>None\<close>.
\<close>

fun none_missing :: "storage \<Rightarrow> factor_name list \<Rightarrow> bool" where
  "none_missing st [] = True"
| "none_missing st (name # names) =
     (if lookup st name = None then False else none_missing st names)"

definition covariance_exist :: "storage \<Rightarrow> bool" where
  "covariance_exist st = none_missing st COVARIANCE_FACTOR_NAMES"

text \<open>
  The loop of \<^verbatim>\<open>synchronize\<close>: each factor is moved to the accelerator and reduced. The
  second component lists the names \<^verbatim>\<open>dist.reduce\<close> was called for, in order.
\<close>

fun synchronize_loop ::
  "module \<Rightarrow> factor_name list \<Rightarrow> storage \<times> factor_name list \<Rightarrow> (storage \<times> factor_name list) result" where
  "synchronize_loop m [] (st, reduced) = (None, (st, reduced))"
| "synchronize_loop m (name # names) (st, reduced) =
     (if lookup st name = None then (Some AttributeError, (st, reduced))
      else synchronize_loop m names
             (modify (\<lambda>x. dist_reduce_matrix m (cuda x)) (\<lambda>x. dist_reduce_num m (cuda x)) name st,
              reduced @ [name]))"

definition covariance_synchronize ::
  "module \<Rightarrow> nat \<Rightarrow> storage \<Rightarrow> (storage \<times> factor_name list) result" where
  "covariance_synchronize m num_processes st =
     (if dist_is_initialized m \<and> cuda_is_available m \<and> covariance_exist st
      then synchronize_loop m COVARIANCE_FACTOR_NAMES (st, [])
      else (None, (st, [])))"

fun release_loop :: "factor_name list \<Rightarrow> storage \<Rightarrow> storage" where
  "release_loop [] st = st"
| "release_loop (name # names) st = release_loop names (set_None name st)"

definition covariance_release_memory :: "storage \<Rightarrow> storage result" where
  "covariance_release_memory st = (None, release_loop COVARIANCE_FACTOR_NAMES st)"

section \<open>LambdaTracker\<close>

text \<open>
  The state of a tracker: the storage of its module, and the two caches of the tracker
  base class. \<^verbatim>\<open>cached_activations\<close> is \<^verbatim>\<open>None\<close>, a tensor, or a list of tensors.
\<close>

datatype activations = Single tensor | Pushed "tensor list"

record tracker =
  module_storage :: storage
  cached_activations :: "activations option"
  cached_per_sample_gradient :: "batch option"

text \<open>
  Modelled from the spec: \<^verbatim>\<open>clear_all_cache\<close> and
  \<^verbatim>\<open>_raise_cache_not_found_exception\<close> of the tracker base class
  (\<^verbatim>\<open>kronfluence/module/tracker/base.py\<close>, not among the sources). Clearing drops the
  cached activations and the cached per-sample gradient; a missing cache is a fatal error.
\<close>

definition clear_all_cache :: "tracker \<Rightarrow> tracker" where
  "clear_all_cache tr = tr\<lparr>cached_activations := None, cached_per_sample_gradient := None\<rparr>"

definition raise_cache_not_found_exception :: error where
  "raise_cache_not_found_exception = CacheNotFoundError"

definition eigendecomposition_results_exist :: "storage \<Rightarrow> bool" where
  "eigendecomposition_results_exist st = none_missing st EIGENDECOMPOSITION_FACTOR_NAMES"

definition factors_not_found_message :: "string \<Rightarrow> string" where
  "factors_not_found_message s =
     ''The strategy '' @ s @ '' requires eigendecomposition '' @
     ''results for Lambda computations, but they are not found.''"

text \<open>
  The first block of \<^verbatim>\<open>_update_lambda_matrix\<close>, entered when the processed count is
  \<^verbatim>\<open>None\<close>: it allocates the count and the Lambda matrix, then checks for the
  eigenvectors and moves them to the dtype and the device of the per-sample gradient.
\<close>

definition first_update :: "module \<Rightarrow> batch \<Rightarrow> storage \<Rightarrow> storage result" where
  "first_update m per_sample_gradient st =
     (let st1 = st\<lparr>num_lambda_processed := Some (zeros_num default_device),
                   lambda_matrix :=
                     Some (zeros_matrix (size1 per_sample_gradient) (size2 per_sample_gradient)
                            (dtype per_sample_gradient) (device per_sample_gradient))\<rparr>
      in if requires_eigendecomposition_for_lambda m (strategy (factor_args m))
         then (if \<not> eigendecomposition_results_exist st1
               then (Some (FactorsNotFoundError
                             (factors_not_found_message (strategy (factor_args m)))), st1)
               else (case activation_eigenvectors st1 of
                       None \<Rightarrow> (Some AttributeError, st1)
                     | Some qa \<Rightarrow>
                         (let st2 = st1\<lparr>activation_eigenvectors :=
                                Some (to_dtype_device (dtype per_sample_gradient)
                                        (device per_sample_gradient) qa)\<rparr>
                          in case gradient_eigenvectors st2 of
                               None \<Rightarrow> (Some AttributeError, st2)
                             | Some qg \<Rightarrow>
                                 (None, st2\<lparr>gradient_eigenvectors :=
                                    Some (to_dtype_device (dtype per_sample_gradient)
                                            (device per_sample_gradient) qg)\<rparr>))))
         else (None, st1))"

text \<open>\<^verbatim>\<open>storage[LAMBDA_MATRIX_NAME].add_(x)\<close>.\<close>

definition add_to_lambda_matrix :: "matrix \<Rightarrow> storage \<Rightarrow> storage result" where
  "add_to_lambda_matrix x st =
     (case lambda_matrix st of
        None \<Rightarrow> (Some AttributeError, st)
      | Some l \<Rightarrow>
          (case add_matrix l x of
             Inl e \<Rightarrow> (Some e, st)
           | Inr l' \<Rightarrow> (None, st\<lparr>lambda_matrix := Some l'\<rparr>)))"

text \<open>
  The loop \<^verbatim>\<open>for i in range(batch_size)\<close> of the iterative aggregation, over the batch
  already projected through the activation eigenvectors.
\<close>

fun iterative_update :: "batch \<Rightarrow> nat list \<Rightarrow> storage \<Rightarrow> storage result" where
  "iterative_update g [] st = (None, st)"
| "iterative_update g (i # is) st =
     (case gradient_eigenvectors st of
        None \<Rightarrow> (Some AttributeError, st)
      | Some qg \<Rightarrow>
          (case getitem g i of
             Inl e \<Rightarrow> (Some e, st)
           | Inr gi \<Rightarrow>
               (case matmul_mm (t_matrix qg) gi of
                  Inl e \<Rightarrow> (Some e, st)
                | Inr sqrt_lambda \<Rightarrow>
                    (case add_to_lambda_matrix (square_matrix sqrt_lambda) st of
                       (Some e, st') \<Rightarrow> (Some e, st')
                     | (None, st') \<Rightarrow> iterative_update g is st'))))"

text \<open>
  The aggregation of \<^verbatim>\<open>_update_lambda_matrix\<close>, after the count is incremented. With
  eigendecomposition the projections are new tensors; without it \<^verbatim>\<open>square_\<close> squares
  the caller's tensor in place. The result carries the storage and the caller's tensor as
  the call leaves them.
\<close>

definition aggregate :: "module \<Rightarrow> batch \<Rightarrow> storage \<Rightarrow> (storage \<times> batch) result" where
  "aggregate m per_sample_gradient st =
     (if requires_eigendecomposition_for_lambda m (strategy (factor_args m))
      then (if use_iterative_lambda_aggregation (factor_args m)
            then (case activation_eigenvectors st of
                    None \<Rightarrow> (Some TypeError, (st, per_sample_gradient))
                  | Some qa \<Rightarrow>
                      (case matmul_bm per_sample_gradient qa of
                         Inl e \<Rightarrow> (Some e, (st, per_sample_gradient))
                       | Inr g \<Rightarrow>
                           (case iterative_update g [0..<size0 per_sample_gradient] st of
                              (e, st') \<Rightarrow> (e, (st', per_sample_gradient)))))
            else (case gradient_eigenvectors st of
                    None \<Rightarrow> (Some AttributeError, (st, per_sample_gradient))
                  | Some qg \<Rightarrow>
                      (case activation_eigenvectors st of
                         None \<Rightarrow> (Some TypeError, (st, per_sample_gradient))
                       | Some qa \<Rightarrow>
                           (case matmul_bm per_sample_gradient qa of
                              Inl e \<Rightarrow> (Some e, (st, per_sample_gradient))
                            | Inr g1 \<Rightarrow>
                                (case matmul_mb (t_matrix qg) g1 of
                                   Inl e \<Rightarrow> (Some e, (st, per_sample_gradient))
                                 | Inr g2 \<Rightarrow>
                                     (case add_to_lambda_matrix (sum_dim0 (square_batch g2)) st of
                                        (e, st') \<Rightarrow> (e, (st', per_sample_gradient))))))))
      else (case lambda_matrix st of
              None \<Rightarrow> (Some AttributeError, (st, per_sample_gradient))
            | Some l \<Rightarrow>
                (let squared = square_batch per_sample_gradient
                 in case add_to_lambda_matrix (sum_dim0 squared) st of
                      (e, st') \<Rightarrow> (e, (st', squared)))))"

text \<open>\<^verbatim>\<open>_update_lambda_matrix\<close>.\<close>

definition update_lambda_matrix :: "module \<Rightarrow> batch \<Rightarrow> storage \<Rightarrow> (storage \<times> batch) result" where
  "update_lambda_matrix m per_sample_gradient st =
     (let batch_size = size0 per_sample_gradient
      in case (if num_lambda_processed st = None then first_update m per_sample_gradient st
               else (None, st)) of
           (Some e, st1) \<Rightarrow> (Some e, (st1, per_sample_gradient))
         | (None, st1) \<Rightarrow>
             (case num_lambda_processed st1 of
                None \<Rightarrow> (Some AttributeError, (st1, per_sample_gradient))
              | Some n \<Rightarrow>
                  aggregate m per_sample_gradient
                    (st1\<lparr>num_lambda_processed := Some (add_num n (of_nat batch_size))\<rparr>)))"


datatype hook = Backward_hook | Shared_backward_hook

definition registered_hook :: "module \<Rightarrow> hook" where
  "registered_hook m =
     (if has_shared_parameters (factor_args m) then Shared_backward_hook else Backward_hook)"

text \<open>
  \<open>backward_hook\<close>, for a module without shared parameters. The per-sample gradient is a
  new tensor, so what \<^verbatim>\<open>_update_lambda_matrix\<close> does to it is not kept.
\<close>

definition lambda_backward_hook :: "module \<Rightarrow> tensor \<Rightarrow> tracker \<Rightarrow> tracker result" where
  "lambda_backward_hook m output_gradient tr =
     (case cached_activations tr of
        None \<Rightarrow> (Some raise_cache_not_found_exception, tr)
      | Some c \<Rightarrow>
          (let output_gradient' =
                 scale_output_gradient m output_gradient
                   (per_sample_gradient_dtype (factor_args m))
           in case c of
                Pushed xs \<Rightarrow> (Some AttributeError, tr)
              | Single x \<Rightarrow>
                  (let per_sample_gradient =
                         to_dtype (lambda_dtype (factor_args m))
                           (compute_per_sample_gradient m
                              (to_device (device output_gradient') x) output_gradient');
                       tr1 = clear_all_cache tr
                   in case update_lambda_matrix m per_sample_gradient (module_storage tr1) of
                        (e, (st', g')) \<Rightarrow> (e, tr1\<lparr>module_storage := st'\<rparr>))))"

text \<open>
  \<open>shared_backward_hook\<close>: \<^verbatim>\<open>pop()\<close> takes the last element of the list, and raises on
  \<^verbatim>\<open>None\<close>, on a tensor and on the empty list.
\<close>

definition shared_backward_hook :: "module \<Rightarrow> tensor \<Rightarrow> tracker \<Rightarrow> tracker result" where
  "shared_backward_hook m output_gradient tr =
     (let output_gradient' =
            scale_output_gradient m output_gradient (per_sample_gradient_dtype (factor_args m))
      in case cached_activations tr of
           None \<Rightarrow> (Some AttributeError, tr)
         | Some (Single x) \<Rightarrow> (Some AttributeError, tr)
         | Some (Pushed xs) \<Rightarrow>
             (if xs = [] then (Some IndexError, tr)
              else (let cached_activation = last xs;
                        tr1 = tr\<lparr>cached_activations := Some (Pushed (butlast xs))\<rparr>;
                        per_sample_gradient =
                          compute_per_sample_gradient m
                            (to_device (device output_gradient') cached_activation)
                            output_gradient';
                        tr2 = (if cached_per_sample_gradient tr1 = None
                               then tr1\<lparr>cached_per_sample_gradient :=
                                          Some (zeros_like per_sample_gradient)\<rparr>
                               else tr1)
                    in case cached_per_sample_gradient tr2 of
                         None \<Rightarrow> (Some AttributeError, tr2)
                       | Some acc \<Rightarrow>
                           (case add_batch acc per_sample_gradient of
                              Inl e \<Rightarrow> (Some e, tr2)
                            | Inr acc' \<Rightarrow>
                                (None, tr2\<lparr>cached_per_sample_gradient := Some acc'\<rparr>)))))"

text \<open>
  \<^verbatim>\<open>finalize_iteration\<close>. The cast is the first statement, before
  \<^verbatim>\<open>has_shared_parameters\<close> is read. The cached gradient is the tensor handed to
  \<^verbatim>\<open>_update_lambda_matrix\<close>, so it is left as that call leaves it when the call raises.
\<close>

definition finalize_iteration :: "module \<Rightarrow> tracker \<Rightarrow> tracker result" where
  "finalize_iteration m tr =
     (case cached_per_sample_gradient tr of
        None \<Rightarrow> (Some AttributeError, tr)
      | Some g \<Rightarrow>
          (let g1 = to_dtype (lambda_dtype (factor_args m)) g;
               tr1 = tr\<lparr>cached_per_sample_gradient := Some g1\<rparr>
           in if has_shared_parameters (factor_args m)
              then (case update_lambda_matrix m g1 (module_storage tr1) of
                      (Some e, (st', g')) \<Rightarrow>
                        (Some e, tr1\<lparr>module_storage := st',
                                     cached_per_sample_gradient := Some g'\<rparr>)
                    | (None, (st', g')) \<Rightarrow>
                        (None, clear_all_cache
                                 (tr1\<lparr>module_storage := st',
                                      cached_per_sample_gradient := Some g'\<rparr>)))
              else (None, clear_all_cache tr1)))"

definition lambda_exist :: "storage \<Rightarrow> bool" where
  "lambda_exist st = none_missing st LAMBDA_FACTOR_NAMES"

definition lambda_synchronize ::
  "module \<Rightarrow> nat \<Rightarrow> storage \<Rightarrow> (storage \<times> factor_name list) result" where
  "lambda_synchronize m num_processes st =
     (if dist_is_initialized m \<and> cuda_is_available m \<and> lambda_exist st
      then synchronize_loop m LAMBDA_FACTOR_NAMES (st, [])
      else (None, (st, [])))"

definition lambda_release_memory :: "tracker \<Rightarrow> tracker result" where
  "lambda_release_memory tr =
     (let tr1 = clear_all_cache tr
      in (None, tr1\<lparr>module_storage := release_loop LAMBDA_FACTOR_NAMES (module_storage tr1)\<rparr>))"

section \<open>Passes, and what the statistics are required to be\<close>

text \<open>
  The host fires the hooks of a module one after the other; an exception ends the pass and
  leaves the state as the raising hook left it.
\<close>

fun fire_all :: "('a \<Rightarrow> 's \<Rightarrow> 's result) \<Rightarrow> 'a list \<Rightarrow> 's \<Rightarrow> 's result" where
  "fire_all hook [] s = (None, s)"
| "fire_all hook (x # xs) s =
     (case hook x s of (Some e, s') \<Rightarrow> (Some e, s') | (None, s') \<Rightarrow> fire_all hook xs s')"

subsection \<open>Covariance\<close>

text \<open>
  What the module hands back for the inputs of a sequence of forward firings, and for the
  output gradients of a sequence of backward firings.
\<close>

definition flattened_activations :: "module \<Rightarrow> tensor list \<Rightarrow> (matrix \<times> count) list" where
  "flattened_activations m xs =
     map (\<lambda>x. get_flattened_activation m
                 (to_dtype (activation_covariance_dtype (factor_args m)) (detach x))) xs"

definition flattened_gradients :: "module \<Rightarrow> tensor list \<Rightarrow> (matrix \<times> count) list" where
  "flattened_gradients m gs =
     map (\<lambda>g. get_flattened_gradient m
                 (scale_output_gradient m g (gradient_covariance_dtype (factor_args m)))) gs"

text \<open>A flattened tensor with \<open>d\<close> features, of the dtype and on the device of the pass.\<close>

definition conforming :: "nat \<Rightarrow> dtype \<Rightarrow> device \<Rightarrow> matrix \<Rightarrow> bool" where
  "conforming d dt dv A = (wf_matrix A \<and> ncols A = d \<and> dtype A = dt \<and> device A = dv)"

text \<open>All the samples of a pass, and the sum of its element counts.\<close>

definition all_rows :: "(matrix \<times> count) list \<Rightarrow> real list list" where
  "all_rows fs = concat (map (\<lambda>(A, c). rows A) fs)"

definition total_count :: "(matrix \<times> count) list \<Rightarrow> 64 word" where
  "total_count fs = sum_list (map (\<lambda>(A, c). count_value c) fs)"

text \<open>
  \<open>outer x\<close> is \<open>x\<^sup>T x\<close> for a sample \<open>x\<close>, and \<open>sum_outer d xs\<close> the sum of it over the
  samples \<open>xs\<close>, starting from the zero matrix. \<open>gram d A\<close> is the matrix of the inner
  products of the columns of \<open>A\<close>.
\<close>

definition outer :: "real list \<Rightarrow> real list list" where
  "outer x = map (\<lambda>a. map (\<lambda>b. a * b) x) x"

definition sum_outer :: "nat \<Rightarrow> real list list \<Rightarrow> real list list" where
  "sum_outer d xs = foldl (\<lambda>M x. madd M (outer x)) (zeros_rows d d) xs"

definition gram :: "nat \<Rightarrow> real list list \<Rightarrow> real list list" where
  "gram d A = map (\<lambda>i. map (\<lambda>j. sum_list (map (\<lambda>r. r ! i * r ! j) A)) [0..<d]) [0..<d]"

definition shaped :: "nat \<Rightarrow> nat \<Rightarrow> real list list \<Rightarrow> bool" where
  "shaped r c A = (length A = r \<and> list_all (\<lambda>row. length row = c) A)"

subsection \<open>Lambda\<close>

text \<open>The module with \<^verbatim>\<open>use_iterative_lambda_aggregation\<close> set.\<close>

definition set_iterative :: "bool \<Rightarrow> module \<Rightarrow> module" where
  "set_iterative b m = m\<lparr>factor_args := (factor_args m)\<lparr>use_iterative_lambda_aggregation := b\<rparr>\<rparr>"

text \<open>
  The elementwise square of one per-sample gradient \<open>s\<close> in the eigenbasis,
  \<open>(Q\<^sub>G\<^sup>T s Q\<^sub>A)\<^sup>2\<close>, and the sum of it over a batch.
\<close>

definition projection :: "matrix \<Rightarrow> matrix \<Rightarrow> real list list \<Rightarrow> real list list" where
  "projection qa qg s =
     square_rows (mm (transpose_rows (ncols qg) (rows qg)) (mm s (rows qa) (ncols qa)) (ncols qa))"

definition total_projection :: "matrix \<Rightarrow> matrix \<Rightarrow> batch \<Rightarrow> real list list" where
  "total_projection qa qg g =
     foldr madd (map (projection qa qg) (samples g)) (zeros_rows (ncols qg) (ncols qa))"

text \<open>
  Eigenvectors of a batch of shape \<^verbatim>\<open>(batch, r, c)\<close>: \<open>c \<times> c\<close> for the activations and
  \<open>r \<times> r\<close> for the gradients.
\<close>

definition eigenvectors_fit :: "matrix \<Rightarrow> matrix \<Rightarrow> batch \<Rightarrow> bool" where
  "eigenvectors_fit qa qg g =
     (nrows qa = size2 g \<and> ncols qa = size2 g \<and> nrows qg = size1 g \<and> ncols qg = size1 g)"

text \<open>
  A storage that a batch can be accumulated into: either the Lambda factors are not
  allocated yet, or the Lambda matrix has the shape of the batch and it and the eigenvectors
  have the dtype and the device of the batch, as the first update left them.
\<close>

definition lambda_state_fits :: "batch \<Rightarrow> storage \<Rightarrow> bool" where
  "lambda_state_fits g st =
     (case num_lambda_processed st of
        None \<Rightarrow> True
      | Some n \<Rightarrow>
          (case (lambda_matrix st, activation_eigenvectors st, gradient_eigenvectors st) of
             (Some l, Some qa, Some qg) \<Rightarrow>
               wf_matrix l \<and> nrows l = size1 g \<and> ncols l = size2 g \<and>
               dtype l = dtype g \<and> device l = device g \<and>
               dtype qa = dtype g \<and> device qa = device g \<and>
               dtype qg = dtype g \<and> device qg = device g
           | _ \<Rightarrow> False))"

definition ready :: "matrix \<Rightarrow> matrix \<Rightarrow> matrix \<Rightarrow> batch \<Rightarrow> storage \<Rightarrow> bool" where
  "ready qa qg l g st =
     (activation_eigenvectors st = Some qa \<and> gradient_eigenvectors st = Some qg \<and>
      lambda_matrix st = Some l \<and>
      dtype qa = dtype g \<and> device qa = device g \<and> nrows qa = size2 g \<and>
      dtype qg = dtype g \<and> device qg = device g \<and> nrows qg = size1 g \<and>
      dtype l = dtype g \<and> device l = device g \<and> nrows l = ncols qg \<and> ncols l = ncols qa \<and>
      shaped (nrows l) (ncols l) (rows l))"

text \<open>The processed count and the Lambda matrix before a call; zero when not allocated.\<close>

definition processed_before :: "storage \<Rightarrow> 64 word" where
  "processed_before st = (case num_lambda_processed st of None \<Rightarrow> 0 | Some n \<Rightarrow> item n)"

definition lambda_before :: "batch \<Rightarrow> storage \<Rightarrow> real list list" where
  "lambda_before g st =
     (case (num_lambda_processed st, lambda_matrix st) of
        (Some n, Some l) \<Rightarrow> rows l
      | _ \<Rightarrow> zeros_rows (size1 g) (size2 g))"

subsection \<open>Shared parameters\<close>







subsection \<open>The calls of a LambdaTracker\<close>







section \<open>A linear module, for concrete runs\<close>

text \<open>
  A linear layer on inputs of shape \<^verbatim>\<open>(batch, d)\<close>: flattening lists the rows and
  counts them, and the per-sample gradient of the weight is the outer product of a row of
  the output gradient with the row of the input.
\<close>

definition rows_of :: "tensor \<Rightarrow> real list list" where
  "rows_of x = map (\<lambda>i. take (shape x ! 1) (drop (i * (shape x ! 1)) (elems x))) [0..<shape x ! 0]"

definition flatten :: "tensor \<Rightarrow> matrix \<times> count" where
  "flatten x =
     (\<lparr>dtype = dtype x, device = device x, nrows = shape x ! 0, ncols = shape x ! 1,
       rows = rows_of x\<rparr>, IntCount (of_nat (shape x ! 0)))"

definition linear_gradient :: "tensor \<Rightarrow> tensor \<Rightarrow> batch" where
  "linear_gradient x g =
     \<lparr>dtype = dtype g, device = device g, size0 = shape g ! 0, size1 = shape g ! 1,
      size2 = shape x ! 1,
      samples = map2 (\<lambda>gr xr. map (\<lambda>a. map (\<lambda>b. a * b) xr) gr) (rows_of g) (rows_of x)\<rparr>"

definition example_args :: factor_args where
  "example_args =
     \<lparr>strategy = ''ekfac'', activation_covariance_dtype = Float32,
      gradient_covariance_dtype = Float32, per_sample_gradient_dtype = Float32,
      lambda_dtype = Float32, has_shared_parameters = False,
      offload_activations_to_cpu = False, use_iterative_lambda_aggregation = False\<rparr>"

definition example_module :: module where
  "example_module =
     \<lparr>factor_args = example_args, get_flattened_activation = flatten,
      get_flattened_gradient = flatten, compute_per_sample_gradient = linear_gradient,
      scale_output_gradient = (\<lambda>g dt. to_dtype dt g),
      requires_eigendecomposition_for_lambda = (\<lambda>s. s = ''ekfac''),
      dist_is_initialized = True, cuda_is_available = True,
      dist_reduce_matrix = (\<lambda>x. x), dist_reduce_num = (\<lambda>x. x)\<rparr>"

definition shared_module :: module where
  "shared_module =
     example_module\<lparr>factor_args := example_args\<lparr>has_shared_parameters := True\<rparr>\<rparr>"

definition tensor2 :: "nat \<Rightarrow> nat \<Rightarrow> real list \<Rightarrow> tensor" where
  "tensor2 n d xs = \<lparr>dtype = Float64, device = CPU, shape = [n, d], elems = xs\<rparr>"

definition example_tracker :: tracker where
  "example_tracker =
     \<lparr>module_storage = empty_storage, cached_activations = None,
      cached_per_sample_gradient = None\<rparr>"

definition example_gradient :: batch where
  "example_gradient =
     \<lparr>dtype = Float32, device = CPU, size0 = 2, size1 = 1, size2 = 2,
      samples = [[[1, 2]], [[3, 4]]]\<rparr>"

definition example_qa :: matrix where
  "example_qa = \<lparr>dtype = Float64, device = CPU, nrows = 2, ncols = 2, rows = [[0, 1], [1, 0]]\<rparr>"

definition example_qg :: matrix where
  "example_qg = \<lparr>dtype = Float64, device = CPU, nrows = 1, ncols = 1, rows = [[2]]\<rparr>"

definition example_eigen_storage :: storage where
  "example_eigen_storage =
     empty_storage\<lparr>activation_eigenvectors := Some example_qa,
                   gradient_eigenvectors := Some example_qg\<rparr>"

definition example_matrix :: matrix where
  "example_matrix = \<lparr>dtype = Float32, device = CPU, nrows = 1, ncols = 1, rows = [[1]]\<rparr>"

definition example_num :: num where
  "example_num = \<lparr>dtype = Int64, device = CPU, item = 1\<rparr>"

definition full_storage :: storage where
  "full_storage =
     \<lparr>activation_covariance_matrix = Some example_matrix,
      activation_eigenvectors = Some example_matrix,
      gradient_covariance_matrix = Some example_matrix,
      gradient_eigenvectors = Some example_matrix, lambda_matrix = Some example_matrix,
      num_activation_covariance_processed = Some example_num,
      num_gradient_covariance_processed = Some example_num,
      num_lambda_processed = Some example_num\<rparr>"

definition partial_storage :: storage where
  "partial_storage =
     empty_storage\<lparr>lambda_matrix := Some example_matrix,
                   activation_covariance_matrix := Some example_matrix\<rparr>"





section \<open>Lemmas\<close>

lemma none_missing_iff: "none_missing st names = (\<forall>n\<in>set names. lookup st n \<noteq> None)"
  by (induction names) auto

lemma lookup_set_None: "lookup (set_None n st) n' = (if n' = n then None else lookup st n')"
  by (cases n; cases n') simp_all

lemma none_missing_set_None: "n \<in> set names \<Longrightarrow> \<not> none_missing (set_None n st) names"
  unfolding none_missing_iff by (auto simp: lookup_set_None)

lemma lookup_release_loop:
  "lookup (release_loop names st) n = (if n \<in> set names then None else lookup st n)"
  by (induction names arbitrary: st) (auto simp: lookup_set_None)

lemma dot_column: "dot (column i A) (column j A) = sum_list (map (\<lambda>r. r ! i * r ! j) A)"
  by (induction A) (simp_all add: dot_def column_def)

lemma mm_transpose: "mm (transpose_rows d A) A d = gram d A"
  by (simp add: mm_def transpose_rows_def gram_def dot_column o_def)

lemma map2_same: "map2 f (map g xs) (map h xs) = map (\<lambda>x. f (g x) (h x)) xs"
  by (induction xs) simp_all

lemma gram_append: "gram d (A @ B) = madd (gram d A) (gram d B)"
  by (simp add: gram_def madd_def vadd_def map2_same)

lemma gram_Nil: "gram d [] = zeros_rows d d"
  by (simp add: gram_def zeros_rows_def map_replicate_const)

lemma gram_single: "length x = d \<Longrightarrow> gram d [x] = outer x"
  by (auto simp: gram_def outer_def list_eq_iff_nth_eq)

lemma sum_outer_gram:
  "list_all (\<lambda>r. length r = d) xs \<Longrightarrow>
   foldl (\<lambda>M x. madd M (outer x)) (gram d A) xs = gram d (A @ xs)"
proof (induction xs arbitrary: A)
  case Nil
  then show ?case by simp
next
  case (Cons x xs)
  have "madd (gram d A) (outer x) = gram d (A @ [x])"
    using Cons.prems by (simp add: gram_append gram_single)
  with Cons show ?case by simp
qed

lemma gram_sum_outer: "list_all (\<lambda>r. length r = d) xs \<Longrightarrow> gram d xs = sum_outer d xs"
  using sum_outer_gram[of d xs "[]"] by (simp add: sum_outer_def gram_Nil)

lemma addmm_gram:
  "conforming d dt dv A \<Longrightarrow>
   addmm \<lparr>dtype = dt, device = dv, nrows = d, ncols = d, rows = R\<rparr> (t_matrix A) A =
     Inr \<lparr>dtype = dt, device = dv, nrows = d, ncols = d, rows = madd R (gram d (rows A))\<rparr>"
  by (auto simp: conforming_def addmm_def t_matrix_def mm_transpose)

lemma activation_step:
  assumes "get_flattened_activation m x = (A, c)" and "conforming d dt dv A"
    and "num_activation_covariance_processed st = Some n"
    and "activation_covariance_matrix st =
           Some \<lparr>dtype = dt, device = dv, nrows = d, ncols = d, rows = gram d R\<rparr>"
  shows "update_activation_covariance_matrix m x st =
     (None, st\<lparr>num_activation_covariance_processed := Some (n\<lparr>item := item n + count_value c\<rparr>),
               activation_covariance_matrix :=
                 Some \<lparr>dtype = dt, device = dv, nrows = d, ncols = d,
                       rows = gram d (R @ rows A)\<rparr>\<rparr>)"
  using assms
  by (simp add: update_activation_covariance_matrix_def addmm_gram add_num_def gram_append)

lemma activation_first:
  assumes "get_flattened_activation m x = (A, c)" and "conforming d dt dv A"
    and "num_activation_covariance_processed st = None"
  shows "update_activation_covariance_matrix m x st =
     (None, st\<lparr>num_activation_covariance_processed :=
                 Some \<lparr>dtype = Int64, device = count_device c, item = count_value c\<rparr>,
               activation_covariance_matrix :=
                 Some \<lparr>dtype = dt, device = dv, nrows = d, ncols = d,
                       rows = gram d (rows A)\<rparr>\<rparr>)"
proof -
  have c: "ncols A = d" "dtype A = dt" "device A = dv"
    using assms(2) by (simp_all add: conforming_def)
  have "madd (zeros_rows d d) (gram d (rows A)) = gram d ([] @ rows A)"
    unfolding gram_Nil[symmetric] gram_append[symmetric] ..
  then show ?thesis
    using assms(1,3) c addmm_gram[OF assms(2), of "zeros_rows d d"]
    by (simp add: update_activation_covariance_matrix_def add_num_def zeros_num_def
        zeros_matrix_def)
qed

lemma activation_run:
  assumes "list_all (\<lambda>(A, c). conforming d dt dv A) (flattened_activations m xs)"
    and "num_activation_covariance_processed st = Some n"
    and "activation_covariance_matrix st =
           Some \<lparr>dtype = dt, device = dv, nrows = d, ncols = d, rows = gram d R\<rparr>"
  shows "fire_all (covariance_forward_hook m) xs st =
     (None, st\<lparr>num_activation_covariance_processed :=
                 Some (n\<lparr>item := item n + total_count (flattened_activations m xs)\<rparr>),
               activation_covariance_matrix :=
                 Some \<lparr>dtype = dt, device = dv, nrows = d, ncols = d,
                       rows = gram d (R @ all_rows (flattened_activations m xs))\<rparr>\<rparr>)"
  using assms
proof (induction xs arbitrary: st n R)
  case Nil
  then show ?case
    by (simp add: flattened_activations_def all_rows_def total_count_def)
next
  case (Cons x xs)
  obtain A c where f: "get_flattened_activation m
      (to_dtype (activation_covariance_dtype (factor_args m)) (detach x)) = (A, c)"
    by (cases "get_flattened_activation m
      (to_dtype (activation_covariance_dtype (factor_args m)) (detach x))")
  from Cons.prems(1) f have cA: "conforming d dt dv A"
    and rest: "list_all (\<lambda>(A, c). conforming d dt dv A) (flattened_activations m xs)"
    by (simp_all add: flattened_activations_def)
  have step: "covariance_forward_hook m x st =
     (None, st\<lparr>num_activation_covariance_processed := Some (n\<lparr>item := item n + count_value c\<rparr>),
               activation_covariance_matrix :=
                 Some \<lparr>dtype = dt, device = dv, nrows = d, ncols = d,
                       rows = gram d (R @ rows A)\<rparr>\<rparr>)"
    unfolding covariance_forward_hook_def Let_def
    by (rule activation_step[OF f cA Cons.prems(2,3)])
  have unfold: "flattened_activations m (x # xs) = (A, c) # flattened_activations m xs"
    using f by (simp add: flattened_activations_def)
  have "fire_all (covariance_forward_hook m) (x # xs) st =
      fire_all (covariance_forward_hook m) xs
        (st\<lparr>num_activation_covariance_processed := Some (n\<lparr>item := item n + count_value c\<rparr>),
               activation_covariance_matrix :=
                 Some \<lparr>dtype = dt, device = dv, nrows = d, ncols = d,
                       rows = gram d (R @ rows A)\<rparr>\<rparr>)"
    by (simp add: step)
  also have "\<dots> = (None, st\<lparr>num_activation_covariance_processed :=
                 Some (n\<lparr>item := item n + count_value c + total_count (flattened_activations m xs)\<rparr>),
               activation_covariance_matrix :=
                 Some \<lparr>dtype = dt, device = dv, nrows = d, ncols = d,
                       rows = gram d ((R @ rows A) @ all_rows (flattened_activations m xs))\<rparr>\<rparr>)"
    by (subst Cons.IH[OF rest, where n = "n\<lparr>item := item n + count_value c\<rparr>"
          and R = "R @ rows A"]) simp_all
  finally show ?case
    unfolding unfold by (simp add: all_rows_def total_count_def add.assoc)
qed

lemma all_rows_length:
  "list_all (\<lambda>(A, c). conforming d dt dv A) fs \<Longrightarrow> list_all (\<lambda>r. length r = d) (all_rows fs)"
  by (induction fs) (auto simp: all_rows_def conforming_def wf_matrix_def)

lemma activation_closed_form:
  assumes "xs \<noteq> []"
    and "list_all (\<lambda>(A, c). conforming d dt dv A) (flattened_activations m xs)"
    and "num_activation_covariance_processed st = None"
  shows "fire_all (covariance_forward_hook m) xs st =
     (None, st\<lparr>num_activation_covariance_processed :=
                 Some \<lparr>dtype = Int64,
                       device = count_device (snd (hd (flattened_activations m xs))),
                       item = total_count (flattened_activations m xs)\<rparr>,
               activation_covariance_matrix :=
                 Some \<lparr>dtype = dt, device = dv, nrows = d, ncols = d,
                       rows = sum_outer d (all_rows (flattened_activations m xs))\<rparr>\<rparr>)"
proof -
  obtain x xs' where xs: "xs = x # xs'"
    using assms(1) by (cases xs) auto
  obtain A c where f: "get_flattened_activation m
      (to_dtype (activation_covariance_dtype (factor_args m)) (detach x)) = (A, c)"
    by (cases "get_flattened_activation m
      (to_dtype (activation_covariance_dtype (factor_args m)) (detach x))")
  have unfold: "flattened_activations m xs = (A, c) # flattened_activations m xs'"
    using f by (simp add: flattened_activations_def xs)
  from assms(2) have cA: "conforming d dt dv A"
    and rest: "list_all (\<lambda>(A, c). conforming d dt dv A) (flattened_activations m xs')"
    by (simp_all add: unfold)
  let ?st1 = "st\<lparr>num_activation_covariance_processed :=
                 Some \<lparr>dtype = Int64, device = count_device c, item = count_value c\<rparr>,
               activation_covariance_matrix :=
                 Some \<lparr>dtype = dt, device = dv, nrows = d, ncols = d,
                       rows = gram d (rows A)\<rparr>\<rparr>"
  have step: "covariance_forward_hook m x st = (None, ?st1)"
    unfolding covariance_forward_hook_def Let_def
    by (rule activation_first[OF f cA assms(3)])
  have "fire_all (covariance_forward_hook m) xs st =
      fire_all (covariance_forward_hook m) xs' ?st1"
    by (simp add: xs step)
  also have "\<dots> = (None, ?st1\<lparr>num_activation_covariance_processed :=
                 Some (\<lparr>dtype = Int64, device = count_device c, item = count_value c\<rparr>
                        \<lparr>item := count_value c + total_count (flattened_activations m xs')\<rparr>),
               activation_covariance_matrix :=
                 Some \<lparr>dtype = dt, device = dv, nrows = d, ncols = d,
                       rows = gram d (rows A @ all_rows (flattened_activations m xs'))\<rparr>\<rparr>)"
    by (subst activation_run[OF rest, where
          n = "\<lparr>dtype = Int64, device = count_device c, item = count_value c\<rparr>"
          and R = "rows A"]) simp_all
  finally show ?thesis
    using all_rows_length[OF assms(2)]
    by (simp add: unfold all_rows_def total_count_def gram_sum_outer)
qed

lemma gradient_step:
  assumes "get_flattened_gradient m x = (A, c)" and "conforming d dt dv A"
    and "num_gradient_covariance_processed st = Some n"
    and "gradient_covariance_matrix st =
           Some \<lparr>dtype = dt, device = dv, nrows = d, ncols = d, rows = gram d R\<rparr>"
  shows "update_gradient_covariance_matrix m x st =
     (None, st\<lparr>num_gradient_covariance_processed := Some (n\<lparr>item := item n + count_value c\<rparr>),
               gradient_covariance_matrix :=
                 Some \<lparr>dtype = dt, device = dv, nrows = d, ncols = d,
                       rows = gram d (R @ rows A)\<rparr>\<rparr>)"
  using assms
  by (simp add: update_gradient_covariance_matrix_def addmm_gram add_num_def gram_append)

lemma gradient_first:
  assumes "get_flattened_gradient m x = (A, c)" and "conforming d dt dv A"
    and "num_gradient_covariance_processed st = None"
  shows "update_gradient_covariance_matrix m x st =
     (None, st\<lparr>num_gradient_covariance_processed :=
                 Some \<lparr>dtype = Int64, device = count_device c, item = count_value c\<rparr>,
               gradient_covariance_matrix :=
                 Some \<lparr>dtype = dt, device = dv, nrows = d, ncols = d,
                       rows = gram d (rows A)\<rparr>\<rparr>)"
proof -
  have c: "ncols A = d" "dtype A = dt" "device A = dv"
    using assms(2) by (simp_all add: conforming_def)
  have "madd (zeros_rows d d) (gram d (rows A)) = gram d ([] @ rows A)"
    unfolding gram_Nil[symmetric] gram_append[symmetric] ..
  then show ?thesis
    using assms(1,3) c addmm_gram[OF assms(2), of "zeros_rows d d"]
    by (simp add: update_gradient_covariance_matrix_def add_num_def zeros_num_def
        zeros_matrix_def)
qed

lemma gradient_run:
  assumes "list_all (\<lambda>(A, c). conforming d dt dv A) (flattened_gradients m xs)"
    and "num_gradient_covariance_processed st = Some n"
    and "gradient_covariance_matrix st =
           Some \<lparr>dtype = dt, device = dv, nrows = d, ncols = d, rows = gram d R\<rparr>"
  shows "fire_all (covariance_backward_hook m) xs st =
     (None, st\<lparr>num_gradient_covariance_processed :=
                 Some (n\<lparr>item := item n + total_count (flattened_gradients m xs)\<rparr>),
               gradient_covariance_matrix :=
                 Some \<lparr>dtype = dt, device = dv, nrows = d, ncols = d,
                       rows = gram d (R @ all_rows (flattened_gradients m xs))\<rparr>\<rparr>)"
  using assms
proof (induction xs arbitrary: st n R)
  case Nil
  then show ?case
    by (simp add: flattened_gradients_def all_rows_def total_count_def)
next
  case (Cons x xs)
  obtain A c where f: "get_flattened_gradient m
      (scale_output_gradient m x (gradient_covariance_dtype (factor_args m))) = (A, c)"
    by (cases "get_flattened_gradient m
      (scale_output_gradient m x (gradient_covariance_dtype (factor_args m)))")
  from Cons.prems(1) f have cA: "conforming d dt dv A"
    and rest: "list_all (\<lambda>(A, c). conforming d dt dv A) (flattened_gradients m xs)"
    by (simp_all add: flattened_gradients_def)
  have step: "covariance_backward_hook m x st =
     (None, st\<lparr>num_gradient_covariance_processed := Some (n\<lparr>item := item n + count_value c\<rparr>),
               gradient_covariance_matrix :=
                 Some \<lparr>dtype = dt, device = dv, nrows = d, ncols = d,
                       rows = gram d (R @ rows A)\<rparr>\<rparr>)"
    unfolding covariance_backward_hook_def Let_def
    by (rule gradient_step[OF f cA Cons.prems(2,3)])
  have unfold: "flattened_gradients m (x # xs) = (A, c) # flattened_gradients m xs"
    using f by (simp add: flattened_gradients_def)
  have "fire_all (covariance_backward_hook m) (x # xs) st =
      fire_all (covariance_backward_hook m) xs
        (st\<lparr>num_gradient_covariance_processed := Some (n\<lparr>item := item n + count_value c\<rparr>),
               gradient_covariance_matrix :=
                 Some \<lparr>dtype = dt, device = dv, nrows = d, ncols = d,
                       rows = gram d (R @ rows A)\<rparr>\<rparr>)"
    by (simp add: step)
  also have "\<dots> = (None, st\<lparr>num_gradient_covariance_processed :=
                 Some (n\<lparr>item := item n + count_value c + total_count (flattened_gradients m xs)\<rparr>),
               gradient_covariance_matrix :=
                 Some \<lparr>dtype = dt, device = dv, nrows = d, ncols = d,
                       rows = gram d ((R @ rows A) @ all_rows (flattened_gradients m xs))\<rparr>\<rparr>)"
    by (subst Cons.IH[OF rest, where n = "n\<lparr>item := item n + count_value c\<rparr>"
          and R = "R @ rows A"]) simp_all
  finally show ?case
    unfolding unfold by (simp add: all_rows_def total_count_def add.assoc)
qed

lemma gradient_closed_form:
  assumes "xs \<noteq> []"
    and "list_all (\<lambda>(A, c). conforming d dt dv A) (flattened_gradients m xs)"
    and "num_gradient_covariance_processed st = None"
  shows "fire_all (covariance_backward_hook m) xs st =
     (None, st\<lparr>num_gradient_covariance_processed :=
                 Some \<lparr>dtype = Int64,
                       device = count_device (snd (hd (flattened_gradients m xs))),
                       item = total_count (flattened_gradients m xs)\<rparr>,
               gradient_covariance_matrix :=
                 Some \<lparr>dtype = dt, device = dv, nrows = d, ncols = d,
                       rows = sum_outer d (all_rows (flattened_gradients m xs))\<rparr>\<rparr>)"
proof -
  obtain x xs' where xs: "xs = x # xs'"
    using assms(1) by (cases xs) auto
  obtain A c where f: "get_flattened_gradient m
      (scale_output_gradient m x (gradient_covariance_dtype (factor_args m))) = (A, c)"
    by (cases "get_flattened_gradient m
      (scale_output_gradient m x (gradient_covariance_dtype (factor_args m)))")
  have unfold: "flattened_gradients m xs = (A, c) # flattened_gradients m xs'"
    using f by (simp add: flattened_gradients_def xs)
  from assms(2) have cA: "conforming d dt dv A"
    and rest: "list_all (\<lambda>(A, c). conforming d dt dv A) (flattened_gradients m xs')"
    by (simp_all add: unfold)
  let ?st1 = "st\<lparr>num_gradient_covariance_processed :=
                 Some \<lparr>dtype = Int64, device = count_device c, item = count_value c\<rparr>,
               gradient_covariance_matrix :=
                 Some \<lparr>dtype = dt, device = dv, nrows = d, ncols = d,
                       rows = gram d (rows A)\<rparr>\<rparr>"
  have step: "covariance_backward_hook m x st = (None, ?st1)"
    unfolding covariance_backward_hook_def Let_def
    by (rule gradient_first[OF f cA assms(3)])
  have "fire_all (covariance_backward_hook m) xs st =
      fire_all (covariance_backward_hook m) xs' ?st1"
    by (simp add: xs step)
  also have "\<dots> = (None, ?st1\<lparr>num_gradient_covariance_processed :=
                 Some (\<lparr>dtype = Int64, device = count_device c, item = count_value c\<rparr>
                        \<lparr>item := count_value c + total_count (flattened_gradients m xs')\<rparr>),
               gradient_covariance_matrix :=
                 Some \<lparr>dtype = dt, device = dv, nrows = d, ncols = d,
                       rows = gram d (rows A @ all_rows (flattened_gradients m xs'))\<rparr>\<rparr>)"
    by (subst gradient_run[OF rest, where
          n = "\<lparr>dtype = Int64, device = count_device c, item = count_value c\<rparr>"
          and R = "rows A"]) simp_all
  finally show ?thesis
    using all_rows_length[OF assms(2)]
    by (simp add: unfold all_rows_def total_count_def gram_sum_outer)
qed

lemma expand_id: "length xs = n \<Longrightarrow> expand n xs = xs"
  by (simp add: expand_def)

lemma expand_shaped:
  "shaped r c A \<Longrightarrow> expand r (map (expand c) A) = A"
  by (simp add: shaped_def expand_def list_all_iff map_idI)

lemma vadd_assoc: "vadd (vadd xs ys) zs = vadd xs (vadd ys zs)"
proof (induction xs arbitrary: ys zs)
  case Nil
  then show ?case by (simp add: vadd_def)
next
  case (Cons x xs)
  then show ?case by (cases ys; cases zs) (simp_all add: vadd_def)
qed

lemma vadd_commute: "vadd xs ys = vadd ys xs"
proof (induction xs arbitrary: ys)
  case Nil
  then show ?case by (simp add: vadd_def)
next
  case (Cons x xs)
  then show ?case by (cases ys) (simp_all add: vadd_def)
qed

lemma madd_assoc: "madd (madd A B) C = madd A (madd B C)"
proof (induction A arbitrary: B C)
  case Nil
  then show ?case by (simp add: madd_def)
next
  case (Cons a A)
  then show ?case by (cases B; cases C) (simp_all add: madd_def vadd_assoc)
qed

lemma madd_commute: "madd A B = madd B A"
proof (induction A arbitrary: B)
  case Nil
  then show ?case by (simp add: madd_def)
next
  case (Cons a A)
  then show ?case by (cases B) (simp_all add: madd_def vadd_commute[of a])
qed

lemma vadd_zero: "length xs = c \<Longrightarrow> vadd xs (replicate c 0) = xs"
  by (induction xs arbitrary: c) (auto simp: vadd_def)

lemma madd_zeros: "shaped r c A \<Longrightarrow> madd A (zeros_rows r c) = A"
  by (induction A arbitrary: r) (auto simp: madd_def zeros_rows_def shaped_def vadd_zero)

lemma shaped_madd: "shaped r c A \<Longrightarrow> shaped r c B \<Longrightarrow> shaped r c (madd A B)"
  by (auto simp: shaped_def madd_def vadd_def list_all_length)

lemma shaped_zeros: "shaped r c (zeros_rows r c)"
  by (simp add: shaped_def zeros_rows_def list_all_length)

lemma shaped_square_mm: "length A = r \<Longrightarrow> shaped r c (square_rows (mm A B c))"
  by (simp add: shaped_def square_rows_def mm_def list_all_iff)

lemma shaped_foldr:
  "list_all (shaped r c) ss \<Longrightarrow> shaped r c (foldr madd ss (zeros_rows r c))"
  by (induction ss) (simp_all add: shaped_zeros shaped_madd)

lemma foldl_madd:
  "madd L Z = L \<Longrightarrow> foldl madd L ss = madd L (foldr madd ss Z)"
proof (induction ss arbitrary: L)
  case Nil
  then show ?case by simp
next
  case (Cons s ss)
  have "madd (madd L s) Z = madd (madd L Z) s"
    by (simp add: madd_assoc madd_commute[of s Z])
  with Cons.prems have "madd (madd L s) Z = madd L s" by simp
  from Cons.IH[OF this] show ?case by (simp add: madd_assoc)
qed

lemma foldl_nth: "foldl (\<lambda>L i. f L (xs ! i)) L [0..<length xs] = foldl f L xs"
proof -
  have "foldl (\<lambda>L i. f L (xs ! i)) L [0..<length xs] = foldl f L (map ((!) xs) [0..<length xs])"
    by (simp add: foldl_map)
  then show ?thesis by (simp add: map_nth)
qed

lemma shaped_projection: "shaped (ncols qg) (ncols qa) (projection qa qg s)"
  unfolding projection_def by (rule shaped_square_mm) (simp add: transpose_rows_def)

lemma add_to_lambda_shaped:
  assumes "lambda_matrix st = Some l" and "device l = device x" and "dtype l = dtype x"
    and "nrows x = nrows l" and "ncols x = ncols l" and "shaped (nrows l) (ncols l) (rows x)"
  shows "add_to_lambda_matrix x st =
           (None, st\<lparr>lambda_matrix := Some (l\<lparr>rows := madd (rows l) (rows x)\<rparr>)\<rparr>)"
  using assms
  by (simp add: add_to_lambda_matrix_def add_matrix_def broadcastable_def expand_shaped)

lemma iterative_update_run:
  assumes "gradient_eigenvectors st = Some qg" and "lambda_matrix st = Some l"
    and "dtype qg = dtype g" and "device qg = device g" and "nrows qg = size1 g"
    and "device l = device g" and "dtype l = dtype g"
    and "nrows l = ncols qg" and "ncols l = size2 g"
    and "list_all (\<lambda>i. i < size0 g) js"
  shows "iterative_update g js st =
     (None, st\<lparr>lambda_matrix := Some (l\<lparr>rows :=
        foldl (\<lambda>L i. madd L (square_rows
                 (mm (transpose_rows (ncols qg) (rows qg)) (samples g ! i) (size2 g))))
          (rows l) js\<rparr>)\<rparr>)"
  using assms
proof (induction js arbitrary: st l)
  case Nil
  then show ?case by simp
next
  case (Cons i js)
  let ?x = "\<lparr>dtype = dtype qg, device = device qg, nrows = ncols qg, ncols = size2 g,
      rows = square_rows (mm (transpose_rows (ncols qg) (rows qg)) (samples g ! i) (size2 g))\<rparr>"
  let ?l = "l\<lparr>rows := madd (rows l) (rows ?x)\<rparr>"
  let ?st = "st\<lparr>lambda_matrix := Some ?l\<rparr>"
  have gi: "getitem g i = Inr \<lparr>dtype = dtype g, device = device g, nrows = size1 g,
      ncols = size2 g, rows = samples g ! i\<rparr>"
    using Cons.prems(10) by (simp add: getitem_def)
  have mul: "matmul_mm (t_matrix qg) \<lparr>dtype = dtype g, device = device g, nrows = size1 g,
      ncols = size2 g, rows = samples g ! i\<rparr> =
      Inr \<lparr>dtype = dtype qg, device = device qg, nrows = ncols qg, ncols = size2 g,
        rows = mm (transpose_rows (ncols qg) (rows qg)) (samples g ! i) (size2 g)\<rparr>"
    using Cons.prems(3,4,5) by (simp add: matmul_mm_def t_matrix_def)
  have sh: "shaped (nrows l) (ncols l) (rows ?x)"
    using Cons.prems(8,9) shaped_square_mm[of "transpose_rows (ncols qg) (rows qg)" "ncols qg"]
    by (simp add: transpose_rows_def)
  have add: "add_to_lambda_matrix ?x st = (None, ?st)"
    by (rule add_to_lambda_shaped[OF Cons.prems(2)])
      (use Cons.prems sh in simp_all)
  have step: "iterative_update g (i # js) st = iterative_update g js ?st"
    using Cons.prems(1) by (simp add: gi mul square_matrix_def add)
  have "iterative_update g js ?st =
     (None, ?st\<lparr>lambda_matrix := Some (?l\<lparr>rows :=
        foldl (\<lambda>L i. madd L (square_rows
                 (mm (transpose_rows (ncols qg) (rows qg)) (samples g ! i) (size2 g))))
          (rows ?l) js\<rparr>)\<rparr>)"
    by (rule Cons.IH) (use Cons.prems in simp_all)
  then show ?case
    unfolding step by simp
qed

lemma shaped_total_projection: "shaped (ncols qg) (ncols qa) (total_projection qa qg g)"
  unfolding total_projection_def
  by (rule shaped_foldr) (simp add: list_all_iff shaped_projection)

lemma aggregate_batched:
  assumes "requires_eigendecomposition_for_lambda m (strategy (factor_args m))"
    and "\<not> use_iterative_lambda_aggregation (factor_args m)"
    and "ready qa qg l g st"
  shows "aggregate m g st =
     (None, (st\<lparr>lambda_matrix := Some (l\<lparr>rows := madd (rows l) (total_projection qa qg g)\<rparr>)\<rparr>, g))"
proof -
  define g1 where "g1 = \<lparr>dtype = dtype g, device = device g, size0 = size0 g, size1 = size1 g,
      size2 = ncols qa, samples = map (\<lambda>s. mm s (rows qa) (ncols qa)) (samples g)\<rparr>"
  define g2 where "g2 = \<lparr>dtype = dtype g, device = device g, size0 = size0 g, size1 = ncols qg,
      size2 = ncols qa,
      samples = map (\<lambda>s. mm (transpose_rows (ncols qg) (rows qg)) s (ncols qa)) (samples g1)\<rparr>"
  define x where "x = \<lparr>dtype = dtype g, device = device g, nrows = ncols qg, ncols = ncols qa,
      rows = total_projection qa qg g\<rparr>"
  have r: "activation_eigenvectors st = Some qa" "gradient_eigenvectors st = Some qg"
    "lambda_matrix st = Some l" "dtype qa = dtype g" "device qa = device g"
    "nrows qa = size2 g" "dtype qg = dtype g" "device qg = device g" "nrows qg = size1 g"
    "dtype l = dtype g" "device l = device g" "nrows l = ncols qg" "ncols l = ncols qa"
    using assms(3) unfolding ready_def by blast+
  have m1: "matmul_bm g qa = Inr g1"
    using r by (simp add: matmul_bm_def g1_def)
  have m2: "matmul_mb (t_matrix qg) g1 = Inr g2"
    using r by (simp add: matmul_mb_def t_matrix_def g1_def g2_def)
  have sum: "sum_dim0 (square_batch g2) = x"
    by (simp add: sum_dim0_def square_batch_def total_projection_def projection_def[abs_def]
        o_def g1_def g2_def x_def)
  have add: "add_to_lambda_matrix x st =
     (None, st\<lparr>lambda_matrix := Some (l\<lparr>rows := madd (rows l) (rows x)\<rparr>)\<rparr>)"
    by (rule add_to_lambda_shaped[OF r(3)])
      (use r shaped_total_projection[of qg qa g] in \<open>simp_all add: x_def\<close>)
  have "rows x = total_projection qa qg g"
    by (simp add: x_def)
  then show ?thesis
    using assms(1,2) r(1,2) by (simp add: aggregate_def m1 m2 sum add)
qed

lemma aggregate_iterative:
  assumes "requires_eigendecomposition_for_lambda m (strategy (factor_args m))"
    and "use_iterative_lambda_aggregation (factor_args m)"
    and "ready qa qg l g st" and "length (samples g) = size0 g"
  shows "aggregate m g st =
     (None, (st\<lparr>lambda_matrix := Some (l\<lparr>rows := madd (rows l) (total_projection qa qg g)\<rparr>)\<rparr>, g))"
proof -
  define S where "S = map (\<lambda>s. mm s (rows qa) (ncols qa)) (samples g)"
  define g1 where "g1 = \<lparr>dtype = dtype g, device = device g, size0 = size0 g, size1 = size1 g,
      size2 = ncols qa, samples = S\<rparr>"
  define F where "F = (\<lambda>s. square_rows (mm (transpose_rows (ncols qg) (rows qg)) s (ncols qa)))"
  have r: "activation_eigenvectors st = Some qa" "gradient_eigenvectors st = Some qg"
    "lambda_matrix st = Some l" "dtype qa = dtype g" "device qa = device g"
    "nrows qa = size2 g" "dtype qg = dtype g" "device qg = device g" "nrows qg = size1 g"
    "dtype l = dtype g" "device l = device g" "nrows l = ncols qg" "ncols l = ncols qa"
    "shaped (nrows l) (ncols l) (rows l)"
    using assms(3) unfolding ready_def by blast+
  have m1: "matmul_bm g qa = Inr g1"
    using r by (simp add: matmul_bm_def g1_def S_def)
  have "iterative_update g1 [0..<size0 g] st =
     (None, st\<lparr>lambda_matrix := Some (l\<lparr>rows :=
        foldl (\<lambda>L i. madd L (square_rows
                 (mm (transpose_rows (ncols qg) (rows qg)) (samples g1 ! i) (size2 g1))))
          (rows l) [0..<size0 g]\<rparr>)\<rparr>)"
    by (rule iterative_update_run) (use r in \<open>simp_all add: g1_def list_all_iff\<close>)
  then have loop: "iterative_update g1 [0..<size0 g] st =
     (None, st\<lparr>lambda_matrix := Some (l\<lparr>rows :=
        foldl (\<lambda>L i. madd L (F (S ! i))) (rows l) [0..<size0 g]\<rparr>)\<rparr>)"
    by (simp add: g1_def F_def)
  have len: "length S = size0 g"
    using assms(4) by (simp add: S_def)
  have "foldl (\<lambda>L i. madd L (F (S ! i))) (rows l) [0..<size0 g] =
        foldl (\<lambda>L s. madd L (F s)) (rows l) S"
    using foldl_nth[of "\<lambda>L s. madd L (F s)" S "rows l"] len by simp
  also have "\<dots> = foldl madd (rows l) (map F S)"
    by (simp add: foldl_map)
  also have "map F S = map (projection qa qg) (samples g)"
    by (simp add: F_def S_def projection_def[abs_def])
  also have "foldl madd (rows l) (map (projection qa qg) (samples g)) =
      madd (rows l) (total_projection qa qg g)"
    unfolding total_projection_def
    by (rule foldl_madd) (use r in \<open>simp add: madd_zeros\<close>)
  finally have fold: "foldl (\<lambda>L i. madd L (F (S ! i))) (rows l) [0..<size0 g] =
        madd (rows l) (total_projection qa qg g)" .
  show ?thesis
    using assms(1,2) r(1) by (simp add: aggregate_def m1 loop fold)
qed

lemma total_projection_cast:
  "total_projection (to_dtype_device dt dv qa) (to_dtype_device dt dv qg) g =
   total_projection qa qg g"
  by (simp add: total_projection_def projection_def[abs_def] to_dtype_device_def)

lemma aggregate_any_mode:
  assumes "requires_eigendecomposition_for_lambda m (strategy (factor_args m))"
    and "ready qa qg l g st" and "length (samples g) = size0 g"
  shows "aggregate (set_iterative b m) g st =
     (None, (st\<lparr>lambda_matrix := Some (l\<lparr>rows := madd (rows l) (total_projection qa qg g)\<rparr>)\<rparr>, g))"
proof (cases b)
  case True
  show ?thesis
    by (rule aggregate_iterative[OF _ _ assms(2,3)])
      (use assms(1) True in \<open>simp_all add: set_iterative_def\<close>)
next
  case False
  show ?thesis
    by (rule aggregate_batched[OF _ _ assms(2)])
      (use assms(1) False in \<open>simp_all add: set_iterative_def\<close>)
qed

lemma update_lambda_any_mode:
  assumes req: "requires_eigendecomposition_for_lambda m (strategy (factor_args m))"
    and wf: "wf_batch g"
    and qa: "activation_eigenvectors st = Some qa"
    and qg: "gradient_eigenvectors st = Some qg"
    and fit: "eigenvectors_fit qa qg g"
    and st: "lambda_state_fits g st"
  shows "\<exists>st'. update_lambda_matrix (set_iterative b m) g st = (None, (st', g)) \<and>
     map_option item (num_lambda_processed st') = Some (processed_before st + of_nat (size0 g)) \<and>
     map_option rows (lambda_matrix st') =
       Some (madd (lambda_before g st) (total_projection qa qg g)) \<and>
     st' = (if num_lambda_processed st = None
            then st\<lparr>num_lambda_processed :=
                      Some (add_num (zeros_num default_device) (of_nat (size0 g))),
                    lambda_matrix :=
                      Some ((zeros_matrix (size1 g) (size2 g) (dtype g) (device g))
                              \<lparr>rows := madd (zeros_rows (size1 g) (size2 g))
                                         (total_projection qa qg g)\<rparr>),
                    activation_eigenvectors := Some (to_dtype_device (dtype g) (device g) qa),
                    gradient_eigenvectors := Some (to_dtype_device (dtype g) (device g) qg)\<rparr>
            else st\<lparr>num_lambda_processed :=
                      map_option (\<lambda>n. add_num n (of_nat (size0 g))) (num_lambda_processed st),
                    lambda_matrix :=
                      map_option (\<lambda>l. l\<lparr>rows := madd (rows l) (total_projection qa qg g)\<rparr>)
                        (lambda_matrix st)\<rparr>)"
proof (cases "num_lambda_processed st")
  case None
  define qa' where "qa' = to_dtype_device (dtype g) (device g) qa"
  define qg' where "qg' = to_dtype_device (dtype g) (device g) qg"
  define l0 where "l0 = zeros_matrix (size1 g) (size2 g) (dtype g) (device g)"
  define st1 where "st1 = st\<lparr>num_lambda_processed := Some (zeros_num default_device),
      lambda_matrix := Some l0, activation_eigenvectors := Some qa',
      gradient_eigenvectors := Some qg'\<rparr>"
  define st2 where "st2 = st1\<lparr>num_lambda_processed :=
      Some (add_num (zeros_num default_device) (of_nat (size0 g)))\<rparr>"
  have first: "first_update (set_iterative b m) g st = (None, st1)"
    using req qa qg
    by (simp add: first_update_def set_iterative_def eigendecomposition_results_exist_def
        EIGENDECOMPOSITION_FACTOR_NAMES_def st1_def qa'_def qg'_def l0_def)
  have rdy: "ready qa' qg' l0 g st2"
    using fit
    by (simp add: ready_def st2_def st1_def qa'_def qg'_def l0_def eigenvectors_fit_def
        to_dtype_device_def zeros_matrix_def shaped_zeros)
  have agg: "aggregate (set_iterative b m) g st2 =
     (None, (st2\<lparr>lambda_matrix := Some (l0\<lparr>rows := madd (rows l0) (total_projection qa' qg' g)\<rparr>)\<rparr>, g))"
    by (rule aggregate_any_mode[OF req rdy]) (use wf in \<open>simp add: wf_batch_def\<close>)
  have n1: "num_lambda_processed st1 = Some (zeros_num default_device)"
    by (simp add: st1_def)
  have upd: "update_lambda_matrix (set_iterative b m) g st =
     (None, (st2\<lparr>lambda_matrix := Some (l0\<lparr>rows := madd (rows l0) (total_projection qa' qg' g)\<rparr>)\<rparr>, g))"
    using None by (simp add: update_lambda_matrix_def first n1 st2_def[symmetric] agg)
  show ?thesis
    unfolding upd using None
    by (simp add: st2_def st1_def l0_def qa'_def qg'_def total_projection_cast processed_before_def
        lambda_before_def add_num_def zeros_num_def zeros_matrix_def)
next
  case (Some n)
  from st Some qa qg obtain l where l: "lambda_matrix st = Some l"
    and f: "wf_matrix l" "nrows l = size1 g" "ncols l = size2 g" "dtype l = dtype g"
      "device l = device g" "dtype qa = dtype g" "device qa = device g"
      "dtype qg = dtype g" "device qg = device g"
    by (auto simp: lambda_state_fits_def split: option.splits)
  define st2 where "st2 = st\<lparr>num_lambda_processed := Some (add_num n (of_nat (size0 g)))\<rparr>"
  have rdy: "ready qa qg l g st2"
    using fit qa qg l f
    by (simp add: ready_def st2_def eigenvectors_fit_def shaped_def wf_matrix_def)
  have agg: "aggregate (set_iterative b m) g st2 =
     (None, (st2\<lparr>lambda_matrix := Some (l\<lparr>rows := madd (rows l) (total_projection qa qg g)\<rparr>)\<rparr>, g))"
    by (rule aggregate_any_mode[OF req rdy]) (use wf in \<open>simp add: wf_batch_def\<close>)
  have upd: "update_lambda_matrix (set_iterative b m) g st =
     (None, (st2\<lparr>lambda_matrix := Some (l\<lparr>rows := madd (rows l) (total_projection qa qg g)\<rparr>)\<rparr>, g))"
    using Some by (simp add: update_lambda_matrix_def st2_def[symmetric] agg)
  show ?thesis
    unfolding upd using Some l
    by (simp add: st2_def processed_before_def lambda_before_def add_num_def)
qed

































subsection \<open>A pass of a module with shared parameters\<close>












section \<open>The claims\<close>

text \<open>
  C7. \<^verbatim>\<open>exist()\<close> of either tracker is true exactly when every factor name of its group
  (the two covariance matrices and their two counts; the Lambda matrix and its count) has
  an entry other than \<^verbatim>\<open>None\<close> in the storage, and setting any one entry of the group to
  \<^verbatim>\<open>None\<close> makes it false.
\<close>

theorem exist_iff_all_present:
  "(covariance_exist st = (\<forall>n\<in>set COVARIANCE_FACTOR_NAMES. lookup st n \<noteq> None)) \<and>
   (lambda_exist st = (\<forall>n\<in>set LAMBDA_FACTOR_NAMES. lookup st n \<noteq> None)) \<and>
   (\<forall>n\<in>set COVARIANCE_FACTOR_NAMES.
      covariance_exist st \<longrightarrow> \<not> covariance_exist (set_None n st)) \<and>
   (\<forall>n\<in>set LAMBDA_FACTOR_NAMES. lambda_exist st \<longrightarrow> \<not> lambda_exist (set_None n st))"
proof (intro conjI ballI impI)
  show "covariance_exist st = (\<forall>n\<in>set COVARIANCE_FACTOR_NAMES. lookup st n \<noteq> None)"
    unfolding covariance_exist_def by (rule none_missing_iff)
  show "lambda_exist st = (\<forall>n\<in>set LAMBDA_FACTOR_NAMES. lookup st n \<noteq> None)"
    unfolding lambda_exist_def by (rule none_missing_iff)
next
  fix n assume "n \<in> set COVARIANCE_FACTOR_NAMES"
  then show "\<not> covariance_exist (set_None n st)"
    unfolding covariance_exist_def by (rule none_missing_set_None)
next
  fix n assume "n \<in> set LAMBDA_FACTOR_NAMES"
  then show "\<not> lambda_exist (set_None n st)"
    unfolding lambda_exist_def by (rule none_missing_set_None)
qed

theorem exist_iff_all_present_witness:
  "covariance_exist full_storage \<and> lambda_exist full_storage \<and>
   NUM_GRADIENT_COVARIANCE_PROCESSED \<in> set COVARIANCE_FACTOR_NAMES \<and>
   LAMBDA_MATRIX_NAME \<in> set LAMBDA_FACTOR_NAMES \<and>
   \<not> covariance_exist (set_None NUM_GRADIENT_COVARIANCE_PROCESSED full_storage) \<and>
   \<not> lambda_exist (set_None LAMBDA_MATRIX_NAME full_storage) \<and>
   \<not> covariance_exist partial_storage \<and> \<not> lambda_exist partial_storage"
proof -
  have c: "covariance_exist full_storage" and l: "lambda_exist full_storage"
    by (simp_all add: covariance_exist_def lambda_exist_def full_storage_def
        COVARIANCE_FACTOR_NAMES_def LAMBDA_FACTOR_NAMES_def)
  have nc: "NUM_GRADIENT_COVARIANCE_PROCESSED \<in> set COVARIANCE_FACTOR_NAMES"
    and nl: "LAMBDA_MATRIX_NAME \<in> set LAMBDA_FACTOR_NAMES"
    by (simp_all add: COVARIANCE_FACTOR_NAMES_def LAMBDA_FACTOR_NAMES_def)
  have pc: "\<not> (\<forall>n\<in>set COVARIANCE_FACTOR_NAMES. lookup partial_storage n \<noteq> None)"
    and pl: "\<not> (\<forall>n\<in>set LAMBDA_FACTOR_NAMES. lookup partial_storage n \<noteq> None)"
    by (simp_all add: COVARIANCE_FACTOR_NAMES_def LAMBDA_FACTOR_NAMES_def partial_storage_def
        empty_storage_def)
  from exist_iff_all_present[of full_storage] c l nc nl
  have "\<not> covariance_exist (set_None NUM_GRADIENT_COVARIANCE_PROCESSED full_storage)"
    and "\<not> lambda_exist (set_None LAMBDA_MATRIX_NAME full_storage)"
    by blast+
  moreover from exist_iff_all_present[of partial_storage] pc pl
  have "\<not> covariance_exist partial_storage" and "\<not> lambda_exist partial_storage"
    by blast+
  ultimately show ?thesis using c l nc nl by blast
qed

text \<open>
  C9. \<^verbatim>\<open>release_memory()\<close> of either tracker raises nothing and sets every factor of its
  group to \<^verbatim>\<open>None\<close>, matrices and counts together, leaving the other entries as they
  are. It is idempotent: a second call changes nothing, and on a storage whose group is
  all \<^verbatim>\<open>None\<close> the storage stays the same.
\<close>

theorem release_memory_all_None:
  "fst (covariance_release_memory st) = None \<and>
   fst (lambda_release_memory tr) = None \<and>
   (\<forall>n. lookup (snd (covariance_release_memory st)) n =
         (if n \<in> set COVARIANCE_FACTOR_NAMES then None else lookup st n)) \<and>
   (\<forall>n. lookup (module_storage (snd (lambda_release_memory tr))) n =
         (if n \<in> set LAMBDA_FACTOR_NAMES then None else lookup (module_storage tr) n)) \<and>
   covariance_release_memory (snd (covariance_release_memory st)) = covariance_release_memory st \<and>
   lambda_release_memory (snd (lambda_release_memory tr)) = lambda_release_memory tr \<and>
   ((\<forall>n\<in>set COVARIANCE_FACTOR_NAMES. lookup st n = None) \<longrightarrow>
      covariance_release_memory st = (None, st)) \<and>
   ((\<forall>n\<in>set LAMBDA_FACTOR_NAMES. lookup (module_storage tr) n = None) \<longrightarrow>
      module_storage (snd (lambda_release_memory tr)) = module_storage tr)"
proof (intro conjI allI impI)
  show "fst (covariance_release_memory st) = None"
    by (simp add: covariance_release_memory_def)
  show "fst (lambda_release_memory tr) = None"
    by (simp add: lambda_release_memory_def Let_def)
  show "lookup (snd (covariance_release_memory st)) n =
         (if n \<in> set COVARIANCE_FACTOR_NAMES then None else lookup st n)" for n
    by (simp add: covariance_release_memory_def lookup_release_loop)
  show "lookup (module_storage (snd (lambda_release_memory tr))) n =
         (if n \<in> set LAMBDA_FACTOR_NAMES then None else lookup (module_storage tr) n)" for n
    by (simp add: lambda_release_memory_def Let_def lookup_release_loop clear_all_cache_def)
  show "covariance_release_memory (snd (covariance_release_memory st)) =
      covariance_release_memory st"
    by (simp add: covariance_release_memory_def COVARIANCE_FACTOR_NAMES_def)
  show "lambda_release_memory (snd (lambda_release_memory tr)) = lambda_release_memory tr"
    by (simp add: lambda_release_memory_def Let_def LAMBDA_FACTOR_NAMES_def clear_all_cache_def)
next
  assume "\<forall>n\<in>set COVARIANCE_FACTOR_NAMES. lookup st n = None"
  then show "covariance_release_memory st = (None, st)"
    by (simp add: covariance_release_memory_def COVARIANCE_FACTOR_NAMES_def)
next
  assume "\<forall>n\<in>set LAMBDA_FACTOR_NAMES. lookup (module_storage tr) n = None"
  then show "module_storage (snd (lambda_release_memory tr)) = module_storage tr"
    by (simp add: lambda_release_memory_def Let_def LAMBDA_FACTOR_NAMES_def clear_all_cache_def)
qed

theorem release_memory_all_None_witness:
  "list_all (\<lambda>n. lookup empty_storage n = None) COVARIANCE_FACTOR_NAMES \<and>
   list_all (\<lambda>n. lookup (module_storage example_tracker) n = None) LAMBDA_FACTOR_NAMES \<and>
   covariance_release_memory empty_storage = (None, empty_storage) \<and>
   module_storage (snd (lambda_release_memory example_tracker)) = module_storage example_tracker \<and>
   lookup (snd (covariance_release_memory full_storage)) NUM_ACTIVATION_COVARIANCE_PROCESSED = None \<and>
   lookup (snd (covariance_release_memory full_storage)) LAMBDA_MATRIX_NAME =
     lookup full_storage LAMBDA_MATRIX_NAME"
proof -
  have c: "list_all (\<lambda>n. lookup empty_storage n = None) COVARIANCE_FACTOR_NAMES"
    and l: "list_all (\<lambda>n. lookup (module_storage example_tracker) n = None) LAMBDA_FACTOR_NAMES"
    by (simp_all add: COVARIANCE_FACTOR_NAMES_def LAMBDA_FACTOR_NAMES_def empty_storage_def
        example_tracker_def)
  have c': "\<forall>n\<in>set COVARIANCE_FACTOR_NAMES. lookup empty_storage n = None"
    and l': "\<forall>n\<in>set LAMBDA_FACTOR_NAMES. lookup (module_storage example_tracker) n = None"
    using c l by (simp_all add: list_all_iff)
  have m: "NUM_ACTIVATION_COVARIANCE_PROCESSED \<in> set COVARIANCE_FACTOR_NAMES"
    "LAMBDA_MATRIX_NAME \<notin> set COVARIANCE_FACTOR_NAMES"
    by (simp_all add: COVARIANCE_FACTOR_NAMES_def)
  from release_memory_all_None[of empty_storage example_tracker] c' l'
  have "covariance_release_memory empty_storage = (None, empty_storage)"
    and "module_storage (snd (lambda_release_memory example_tracker)) =
      module_storage example_tracker"
    by blast+
  moreover have a: "lookup (snd (covariance_release_memory full_storage)) n =
      (if n \<in> set COVARIANCE_FACTOR_NAMES then None else lookup full_storage n)" for n
    using release_memory_all_None[of full_storage example_tracker] by blast
  have "lookup (snd (covariance_release_memory full_storage))
          NUM_ACTIVATION_COVARIANCE_PROCESSED = None"
    and "lookup (snd (covariance_release_memory full_storage)) LAMBDA_MATRIX_NAME =
     lookup full_storage LAMBDA_MATRIX_NAME"
    using a[of NUM_ACTIVATION_COVARIANCE_PROCESSED] a[of LAMBDA_MATRIX_NAME] m
    by (simp_all only: if_True if_False)
  then show ?thesis using calculation c l by blast
qed

text \<open>
  C8. \<^verbatim>\<open>synchronize(num_processes)\<close> moves every factor of the tracker's group to the
  accelerator and sum-reduces it to process 0 when a distributed context is active, an
  accelerator is available and \<^verbatim>\<open>exist()\<close> holds; in every other case, also when only some
  of the factors are present, it reduces nothing, leaves the storage as it is and does
  not raise. The third component of the result lists the names that were reduced.
\<close>

theorem synchronize_iff:
  "(dist_is_initialized m \<and> cuda_is_available m \<and> covariance_exist st \<longrightarrow>
      covariance_synchronize m k st =
        (None,
         (st\<lparr>activation_covariance_matrix :=
                map_option (\<lambda>x. dist_reduce_matrix m (cuda x)) (activation_covariance_matrix st),
              gradient_covariance_matrix :=
                map_option (\<lambda>x. dist_reduce_matrix m (cuda x)) (gradient_covariance_matrix st),
              num_activation_covariance_processed :=
                map_option (\<lambda>x. dist_reduce_num m (cuda x)) (num_activation_covariance_processed st),
              num_gradient_covariance_processed :=
                map_option (\<lambda>x. dist_reduce_num m (cuda x)) (num_gradient_covariance_processed st)\<rparr>,
          COVARIANCE_FACTOR_NAMES))) \<and>
   (\<not> (dist_is_initialized m \<and> cuda_is_available m \<and> covariance_exist st) \<longrightarrow>
      covariance_synchronize m k st = (None, (st, []))) \<and>
   (dist_is_initialized m \<and> cuda_is_available m \<and> lambda_exist st \<longrightarrow>
      lambda_synchronize m k st =
        (None,
         (st\<lparr>lambda_matrix :=
                map_option (\<lambda>x. dist_reduce_matrix m (cuda x)) (lambda_matrix st),
              num_lambda_processed :=
                map_option (\<lambda>x. dist_reduce_num m (cuda x)) (num_lambda_processed st)\<rparr>,
          LAMBDA_FACTOR_NAMES))) \<and>
   (\<not> (dist_is_initialized m \<and> cuda_is_available m \<and> lambda_exist st) \<longrightarrow>
      lambda_synchronize m k st = (None, (st, [])))"
proof (intro conjI impI)
  assume "dist_is_initialized m \<and> cuda_is_available m \<and> covariance_exist st"
  then show "covariance_synchronize m k st =
        (None,
         (st\<lparr>activation_covariance_matrix :=
                map_option (\<lambda>x. dist_reduce_matrix m (cuda x)) (activation_covariance_matrix st),
              gradient_covariance_matrix :=
                map_option (\<lambda>x. dist_reduce_matrix m (cuda x)) (gradient_covariance_matrix st),
              num_activation_covariance_processed :=
                map_option (\<lambda>x. dist_reduce_num m (cuda x)) (num_activation_covariance_processed st),
              num_gradient_covariance_processed :=
                map_option (\<lambda>x. dist_reduce_num m (cuda x)) (num_gradient_covariance_processed st)\<rparr>,
          COVARIANCE_FACTOR_NAMES))"
    by (simp add: covariance_synchronize_def covariance_exist_def COVARIANCE_FACTOR_NAMES_def
        split: if_splits)
next
  assume "\<not> (dist_is_initialized m \<and> cuda_is_available m \<and> covariance_exist st)"
  then show "covariance_synchronize m k st = (None, (st, []))"
    by (auto simp add: covariance_synchronize_def)
next
  assume "dist_is_initialized m \<and> cuda_is_available m \<and> lambda_exist st"
  then show "lambda_synchronize m k st =
        (None,
         (st\<lparr>lambda_matrix :=
                map_option (\<lambda>x. dist_reduce_matrix m (cuda x)) (lambda_matrix st),
              num_lambda_processed :=
                map_option (\<lambda>x. dist_reduce_num m (cuda x)) (num_lambda_processed st)\<rparr>,
          LAMBDA_FACTOR_NAMES))"
    by (simp add: lambda_synchronize_def lambda_exist_def LAMBDA_FACTOR_NAMES_def
        split: if_splits)
next
  assume "\<not> (dist_is_initialized m \<and> cuda_is_available m \<and> lambda_exist st)"
  then show "lambda_synchronize m k st = (None, (st, []))"
    by (auto simp add: lambda_synchronize_def)
qed

theorem synchronize_iff_witness:
  "dist_is_initialized example_module \<and> cuda_is_available example_module \<and>
   covariance_exist full_storage \<and> lambda_exist full_storage \<and>
   snd (snd (covariance_synchronize example_module 2 full_storage)) = COVARIANCE_FACTOR_NAMES \<and>
   snd (snd (lambda_synchronize example_module 2 full_storage)) = LAMBDA_FACTOR_NAMES \<and>
   partial_storage \<noteq> empty_storage \<and>
   \<not> covariance_exist partial_storage \<and> \<not> lambda_exist partial_storage \<and>
   covariance_synchronize example_module 2 partial_storage = (None, (partial_storage, [])) \<and>
   lambda_synchronize example_module 2 partial_storage = (None, (partial_storage, []))"
proof -
  have d: "dist_is_initialized example_module" "cuda_is_available example_module"
    by (simp_all add: example_module_def)
  have f: "covariance_exist full_storage" "lambda_exist full_storage"
    by (simp_all add: covariance_exist_def lambda_exist_def full_storage_def
        COVARIANCE_FACTOR_NAMES_def LAMBDA_FACTOR_NAMES_def)
  have p: "\<not> covariance_exist partial_storage" "\<not> lambda_exist partial_storage"
    "partial_storage \<noteq> empty_storage"
    by (simp_all add: covariance_exist_def lambda_exist_def partial_storage_def
        empty_storage_def COVARIANCE_FACTOR_NAMES_def LAMBDA_FACTOR_NAMES_def)
  have full: "snd (snd (covariance_synchronize example_module 2 full_storage)) =
      COVARIANCE_FACTOR_NAMES"
    "snd (snd (lambda_synchronize example_module 2 full_storage)) = LAMBDA_FACTOR_NAMES"
    using synchronize_iff[of example_module full_storage 2] d f by simp_all
  have part: "covariance_synchronize example_module 2 partial_storage =
      (None, (partial_storage, []))"
    "lambda_synchronize example_module 2 partial_storage = (None, (partial_storage, []))"
    using synchronize_iff[of example_module partial_storage 2] p by blast+
  show ?thesis using d f p full part by blast
qed

text \<open>
  C6. A backward-hook firing of the Lambda tracker that finds no cached activation fails
  at once and updates nothing: with \<^verbatim>\<open>cached_activations\<close> equal to \<^verbatim>\<open>None\<close> the plain hook
  raises the cache-not-found error and the shared hook raises on \<^verbatim>\<open>None.pop()\<close>; with an
  empty list the shared hook raises on \<^verbatim>\<open>[].pop()\<close>. In each case the tracker, its storage
  included, is left exactly as it was.
\<close>

theorem backward_without_cache:
  "(cached_activations tr = None \<longrightarrow>
      lambda_backward_hook m g tr = (Some CacheNotFoundError, tr)) \<and>
   (cached_activations tr = None \<longrightarrow>
      shared_backward_hook m g tr = (Some AttributeError, tr)) \<and>
   (cached_activations tr = Some (Pushed []) \<longrightarrow>
      shared_backward_hook m g tr = (Some IndexError, tr))"
  by (simp add: lambda_backward_hook_def shared_backward_hook_def
      raise_cache_not_found_exception_def)

theorem backward_without_cache_witness:
  "cached_activations example_tracker = None \<and>
   lambda_backward_hook example_module (tensor2 1 1 [1]) example_tracker =
     (Some CacheNotFoundError, example_tracker) \<and>
   shared_backward_hook shared_module (tensor2 1 1 [1]) example_tracker =
     (Some AttributeError, example_tracker) \<and>
   shared_backward_hook shared_module (tensor2 1 1 [1])
       (example_tracker\<lparr>cached_activations := Some (Pushed [])\<rparr>) =
     (Some IndexError, example_tracker\<lparr>cached_activations := Some (Pushed [])\<rparr>)"
proof -
  have n: "cached_activations example_tracker = None"
    by (simp add: example_tracker_def)
  have e: "cached_activations (example_tracker\<lparr>cached_activations := Some (Pushed [])\<rparr>) =
      Some (Pushed [])"
    by simp
  show ?thesis
    using backward_without_cache[of example_tracker example_module "tensor2 1 1 [1]"]
      backward_without_cache[of example_tracker shared_module "tensor2 1 1 [1]"]
      backward_without_cache[of "example_tracker\<lparr>cached_activations := Some (Pushed [])\<rparr>"
        shared_module "tensor2 1 1 [1]"] n e
    by blast
qed

text \<open>
  C10. \<^verbatim>\<open>finalize_iteration\<close> casts \<^verbatim>\<open>cached_per_sample_gradient\<close> to the Lambda dtype before
  it looks at \<^verbatim>\<open>has_shared_parameters\<close>. So for every module, shared or not, a call with
  \<^verbatim>\<open>cached_per_sample_gradient\<close> equal to \<^verbatim>\<open>None\<close> fails and changes nothing; a call that
  returns normally had a gradient cached; and for a module without shared parameters a
  call with a cached gradient clears the caches and leaves the storage, the Lambda matrix
  included, untouched.
\<close>

theorem finalize_needs_gradient:
  "(cached_per_sample_gradient tr = None \<longrightarrow>
      finalize_iteration m tr = (Some AttributeError, tr)) \<and>
   (fst (finalize_iteration m tr) = None \<longrightarrow> cached_per_sample_gradient tr \<noteq> None) \<and>
   (\<not> has_shared_parameters (factor_args m) \<and> cached_per_sample_gradient tr \<noteq> None \<longrightarrow>
      finalize_iteration m tr =
        (None, tr\<lparr>cached_activations := None, cached_per_sample_gradient := None\<rparr>))"
  by (auto simp add: finalize_iteration_def clear_all_cache_def Let_def split: option.splits)

theorem finalize_needs_gradient_witness:
  "cached_per_sample_gradient example_tracker = None \<and>
   finalize_iteration example_module example_tracker = (Some AttributeError, example_tracker) \<and>
   finalize_iteration shared_module example_tracker = (Some AttributeError, example_tracker) \<and>
   \<not> has_shared_parameters (factor_args example_module) \<and>
   finalize_iteration example_module
       (example_tracker\<lparr>cached_per_sample_gradient := Some example_gradient\<rparr>) =
     (None, example_tracker) \<and>
   fst (finalize_iteration example_module
       (example_tracker\<lparr>cached_per_sample_gradient := Some example_gradient\<rparr>)) = None"
proof -
  define tr where "tr = example_tracker\<lparr>cached_per_sample_gradient := Some example_gradient\<rparr>"
  have n: "cached_per_sample_gradient example_tracker = None"
    by (simp add: example_tracker_def)
  have s: "\<not> has_shared_parameters (factor_args example_module)"
    by (simp add: example_module_def example_args_def)
  have g: "cached_per_sample_gradient tr \<noteq> None"
    by (simp add: tr_def)
  have c: "tr\<lparr>cached_activations := None, cached_per_sample_gradient := None\<rparr> = example_tracker"
    by (simp add: tr_def example_tracker_def)
  have "finalize_iteration example_module tr = (None, example_tracker)"
    using finalize_needs_gradient[of tr example_module] s g unfolding c by blast
  moreover have "finalize_iteration example_module example_tracker =
      (Some AttributeError, example_tracker)"
    and "finalize_iteration shared_module example_tracker =
      (Some AttributeError, example_tracker)"
    using finalize_needs_gradient[of example_tracker example_module]
      finalize_needs_gradient[of example_tracker shared_module] n by blast+
  ultimately show ?thesis using n s unfolding tr_def by simp
qed

text \<open>
  C4. Starting from a storage with no covariance statistics, after any non-empty sequence
  of forward firings whose flattened activations are well-formed \<open>d\<close>-column matrices of one
  dtype and device, the activation-covariance matrix is the sum of the outer products
  \<open>x\<^sup>T x\<close> over all processed rows and its count is the sum of the counts of the firings;
  the same holds for backward firings, the gradient-covariance matrix and its own count.
  Two sequences of firings that process the same rows with the same total count, such as
  one batch and its two halves, leave the same storage.
\<close>

theorem covariance_accumulates:
  "(xs \<noteq> [] \<and> list_all (\<lambda>(A, c). conforming d dt dv A) (flattened_activations m xs) \<and>
    num_activation_covariance_processed st = None \<longrightarrow>
    fire_all (covariance_forward_hook m) xs st =
     (None, st\<lparr>num_activation_covariance_processed :=
                 Some \<lparr>dtype = Int64,
                       device = count_device (snd (hd (flattened_activations m xs))),
                       item = total_count (flattened_activations m xs)\<rparr>,
               activation_covariance_matrix :=
                 Some \<lparr>dtype = dt, device = dv, nrows = d, ncols = d,
                       rows = sum_outer d (all_rows (flattened_activations m xs))\<rparr>\<rparr>)) \<and>
   (gs \<noteq> [] \<and> list_all (\<lambda>(A, c). conforming d dt dv A) (flattened_gradients m gs) \<and>
    num_gradient_covariance_processed st = None \<longrightarrow>
    fire_all (covariance_backward_hook m) gs st =
     (None, st\<lparr>num_gradient_covariance_processed :=
                 Some \<lparr>dtype = Int64,
                       device = count_device (snd (hd (flattened_gradients m gs))),
                       item = total_count (flattened_gradients m gs)\<rparr>,
               gradient_covariance_matrix :=
                 Some \<lparr>dtype = dt, device = dv, nrows = d, ncols = d,
                       rows = sum_outer d (all_rows (flattened_gradients m gs))\<rparr>\<rparr>)) \<and>
   (xs \<noteq> [] \<and> ys \<noteq> [] \<and>
    list_all (\<lambda>(A, c). conforming d dt dv A) (flattened_activations m xs) \<and>
    list_all (\<lambda>(A, c). conforming d dt dv A) (flattened_activations m ys) \<and>
    num_activation_covariance_processed st = None \<and>
    all_rows (flattened_activations m xs) = all_rows (flattened_activations m ys) \<and>
    total_count (flattened_activations m xs) = total_count (flattened_activations m ys) \<and>
    count_device (snd (hd (flattened_activations m xs))) =
      count_device (snd (hd (flattened_activations m ys))) \<longrightarrow>
    fire_all (covariance_forward_hook m) xs st = fire_all (covariance_forward_hook m) ys st) \<and>
   (gs \<noteq> [] \<and> hs \<noteq> [] \<and>
    list_all (\<lambda>(A, c). conforming d dt dv A) (flattened_gradients m gs) \<and>
    list_all (\<lambda>(A, c). conforming d dt dv A) (flattened_gradients m hs) \<and>
    num_gradient_covariance_processed st = None \<and>
    all_rows (flattened_gradients m gs) = all_rows (flattened_gradients m hs) \<and>
    total_count (flattened_gradients m gs) = total_count (flattened_gradients m hs) \<and>
    count_device (snd (hd (flattened_gradients m gs))) =
      count_device (snd (hd (flattened_gradients m hs))) \<longrightarrow>
    fire_all (covariance_backward_hook m) gs st = fire_all (covariance_backward_hook m) hs st)"
proof (intro conjI impI)
  assume "xs \<noteq> [] \<and> list_all (\<lambda>(A, c). conforming d dt dv A) (flattened_activations m xs) \<and>
    num_activation_covariance_processed st = None"
  then show "fire_all (covariance_forward_hook m) xs st =
     (None, st\<lparr>num_activation_covariance_processed :=
                 Some \<lparr>dtype = Int64,
                       device = count_device (snd (hd (flattened_activations m xs))),
                       item = total_count (flattened_activations m xs)\<rparr>,
               activation_covariance_matrix :=
                 Some \<lparr>dtype = dt, device = dv, nrows = d, ncols = d,
                       rows = sum_outer d (all_rows (flattened_activations m xs))\<rparr>\<rparr>)"
    using activation_closed_form by blast
next
  assume "gs \<noteq> [] \<and> list_all (\<lambda>(A, c). conforming d dt dv A) (flattened_gradients m gs) \<and>
    num_gradient_covariance_processed st = None"
  then show "fire_all (covariance_backward_hook m) gs st =
     (None, st\<lparr>num_gradient_covariance_processed :=
                 Some \<lparr>dtype = Int64,
                       device = count_device (snd (hd (flattened_gradients m gs))),
                       item = total_count (flattened_gradients m gs)\<rparr>,
               gradient_covariance_matrix :=
                 Some \<lparr>dtype = dt, device = dv, nrows = d, ncols = d,
                       rows = sum_outer d (all_rows (flattened_gradients m gs))\<rparr>\<rparr>)"
    using gradient_closed_form by blast
next
  assume a: "xs \<noteq> [] \<and> ys \<noteq> [] \<and>
    list_all (\<lambda>(A, c). conforming d dt dv A) (flattened_activations m xs) \<and>
    list_all (\<lambda>(A, c). conforming d dt dv A) (flattened_activations m ys) \<and>
    num_activation_covariance_processed st = None \<and>
    all_rows (flattened_activations m xs) = all_rows (flattened_activations m ys) \<and>
    total_count (flattened_activations m xs) = total_count (flattened_activations m ys) \<and>
    count_device (snd (hd (flattened_activations m xs))) =
      count_device (snd (hd (flattened_activations m ys)))"
  then have "fire_all (covariance_forward_hook m) xs st =
     (None, st\<lparr>num_activation_covariance_processed :=
                 Some \<lparr>dtype = Int64,
                       device = count_device (snd (hd (flattened_activations m xs))),
                       item = total_count (flattened_activations m xs)\<rparr>,
               activation_covariance_matrix :=
                 Some \<lparr>dtype = dt, device = dv, nrows = d, ncols = d,
                       rows = sum_outer d (all_rows (flattened_activations m xs))\<rparr>\<rparr>)"
    using activation_closed_form by blast
  moreover from a have "fire_all (covariance_forward_hook m) ys st =
     (None, st\<lparr>num_activation_covariance_processed :=
                 Some \<lparr>dtype = Int64,
                       device = count_device (snd (hd (flattened_activations m ys))),
                       item = total_count (flattened_activations m ys)\<rparr>,
               activation_covariance_matrix :=
                 Some \<lparr>dtype = dt, device = dv, nrows = d, ncols = d,
                       rows = sum_outer d (all_rows (flattened_activations m ys))\<rparr>\<rparr>)"
    using activation_closed_form by blast
  ultimately show "fire_all (covariance_forward_hook m) xs st =
      fire_all (covariance_forward_hook m) ys st"
    using a by simp
next
  assume a: "gs \<noteq> [] \<and> hs \<noteq> [] \<and>
    list_all (\<lambda>(A, c). conforming d dt dv A) (flattened_gradients m gs) \<and>
    list_all (\<lambda>(A, c). conforming d dt dv A) (flattened_gradients m hs) \<and>
    num_gradient_covariance_processed st = None \<and>
    all_rows (flattened_gradients m gs) = all_rows (flattened_gradients m hs) \<and>
    total_count (flattened_gradients m gs) = total_count (flattened_gradients m hs) \<and>
    count_device (snd (hd (flattened_gradients m gs))) =
      count_device (snd (hd (flattened_gradients m hs)))"
  then have "fire_all (covariance_backward_hook m) gs st =
     (None, st\<lparr>num_gradient_covariance_processed :=
                 Some \<lparr>dtype = Int64,
                       device = count_device (snd (hd (flattened_gradients m gs))),
                       item = total_count (flattened_gradients m gs)\<rparr>,
               gradient_covariance_matrix :=
                 Some \<lparr>dtype = dt, device = dv, nrows = d, ncols = d,
                       rows = sum_outer d (all_rows (flattened_gradients m gs))\<rparr>\<rparr>)"
    using gradient_closed_form by blast
  moreover from a have "fire_all (covariance_backward_hook m) hs st =
     (None, st\<lparr>num_gradient_covariance_processed :=
                 Some \<lparr>dtype = Int64,
                       device = count_device (snd (hd (flattened_gradients m hs))),
                       item = total_count (flattened_gradients m hs)\<rparr>,
               gradient_covariance_matrix :=
                 Some \<lparr>dtype = dt, device = dv, nrows = d, ncols = d,
                       rows = sum_outer d (all_rows (flattened_gradients m hs))\<rparr>\<rparr>)"
    using gradient_closed_form by blast
  ultimately show "fire_all (covariance_backward_hook m) gs st =
      fire_all (covariance_backward_hook m) hs st"
    using a by simp
qed

theorem covariance_accumulates_witness:
  "list_all (\<lambda>(A, c). conforming 2 Float32 CPU A)
     (flattened_activations example_module [tensor2 2 2 [1, 2, 3, 4]]) \<and>
   list_all (\<lambda>(A, c). conforming 2 Float32 CPU A)
     (flattened_activations example_module [tensor2 1 2 [1, 2], tensor2 1 2 [3, 4]]) \<and>
   list_all (\<lambda>(A, c). conforming 2 Float32 CPU A)
     (flattened_gradients example_module [tensor2 2 2 [1, 2, 3, 4]]) \<and>
   list_all (\<lambda>(A, c). conforming 2 Float32 CPU A)
     (flattened_gradients example_module [tensor2 1 2 [1, 2], tensor2 1 2 [3, 4]]) \<and>
   fire_all (covariance_forward_hook example_module) [tensor2 2 2 [1, 2, 3, 4]] empty_storage =
     (None, empty_storage\<lparr>num_activation_covariance_processed :=
                 Some \<lparr>dtype = Int64, device = CPU, item = 2\<rparr>,
               activation_covariance_matrix :=
                 Some \<lparr>dtype = Float32, device = CPU, nrows = 2, ncols = 2,
                       rows = [[10, 14], [14, 20]]\<rparr>\<rparr>) \<and>
   fire_all (covariance_backward_hook example_module) [tensor2 2 2 [1, 2, 3, 4]] empty_storage =
     (None, empty_storage\<lparr>num_gradient_covariance_processed :=
                 Some \<lparr>dtype = Int64, device = CPU, item = 2\<rparr>,
               gradient_covariance_matrix :=
                 Some \<lparr>dtype = Float32, device = CPU, nrows = 2, ncols = 2,
                       rows = [[10, 14], [14, 20]]\<rparr>\<rparr>) \<and>
   fire_all (covariance_forward_hook example_module) [tensor2 2 2 [1, 2, 3, 4]] empty_storage =
     fire_all (covariance_forward_hook example_module)
       [tensor2 1 2 [1, 2], tensor2 1 2 [3, 4]] empty_storage \<and>
   fire_all (covariance_backward_hook example_module) [tensor2 2 2 [1, 2, 3, 4]] empty_storage =
     fire_all (covariance_backward_hook example_module)
       [tensor2 1 2 [1, 2], tensor2 1 2 [3, 4]] empty_storage"
proof -
  define xs where "xs = [tensor2 2 2 [1, 2, 3, 4]]"
  define ys where "ys = [tensor2 1 2 [1, 2], tensor2 1 2 [3, 4]]"
  have ne: "xs \<noteq> []" "ys \<noteq> []"
    by (simp_all add: xs_def ys_def)
  have n0: "num_activation_covariance_processed empty_storage = None"
    "num_gradient_covariance_processed empty_storage = None"
    by (simp_all add: empty_storage_def)
  have ax: "list_all (\<lambda>(A, c). conforming 2 Float32 CPU A) (flattened_activations example_module xs)"
    unfolding xs_def by code_simp
  have ay: "list_all (\<lambda>(A, c). conforming 2 Float32 CPU A) (flattened_activations example_module ys)"
    unfolding ys_def by code_simp
  have gx: "list_all (\<lambda>(A, c). conforming 2 Float32 CPU A) (flattened_gradients example_module xs)"
    unfolding xs_def by code_simp
  have gy: "list_all (\<lambda>(A, c). conforming 2 Float32 CPU A) (flattened_gradients example_module ys)"
    unfolding ys_def by code_simp
  have ea: "all_rows (flattened_activations example_module xs) =
        all_rows (flattened_activations example_module ys)"
      "total_count (flattened_activations example_module xs) =
        total_count (flattened_activations example_module ys)"
      "count_device (snd (hd (flattened_activations example_module xs))) =
        count_device (snd (hd (flattened_activations example_module ys)))"
    unfolding xs_def ys_def by code_simp+
  have eg: "all_rows (flattened_gradients example_module xs) =
        all_rows (flattened_gradients example_module ys)"
      "total_count (flattened_gradients example_module xs) =
        total_count (flattened_gradients example_module ys)"
      "count_device (snd (hd (flattened_gradients example_module xs))) =
        count_device (snd (hd (flattened_gradients example_module ys)))"
    unfolding xs_def ys_def by code_simp+
  note w = covariance_accumulates[of xs 2 Float32 CPU example_module empty_storage xs ys ys]
  have va: "fire_all (covariance_forward_hook example_module) xs empty_storage =
     (None, empty_storage\<lparr>num_activation_covariance_processed :=
                 Some \<lparr>dtype = Int64, device = CPU, item = 2\<rparr>,
               activation_covariance_matrix :=
                 Some \<lparr>dtype = Float32, device = CPU, nrows = 2, ncols = 2,
                       rows = [[10, 14], [14, 20]]\<rparr>\<rparr>)"
    unfolding xs_def by code_simp
  have vg: "fire_all (covariance_backward_hook example_module) xs empty_storage =
     (None, empty_storage\<lparr>num_gradient_covariance_processed :=
                 Some \<lparr>dtype = Int64, device = CPU, item = 2\<rparr>,
               gradient_covariance_matrix :=
                 Some \<lparr>dtype = Float32, device = CPU, nrows = 2, ncols = 2,
                       rows = [[10, 14], [14, 20]]\<rparr>\<rparr>)"
    unfolding xs_def by code_simp
  have sa: "fire_all (covariance_forward_hook example_module) xs empty_storage =
      fire_all (covariance_forward_hook example_module) ys empty_storage"
    using w ne n0 ax ay ea by blast
  have sg: "fire_all (covariance_backward_hook example_module) xs empty_storage =
      fire_all (covariance_backward_hook example_module) ys empty_storage"
    using w ne n0 gx gy eg by blast
  from ax ay gx gy va vg sa sg show ?thesis
    unfolding xs_def ys_def by blast
qed

text \<open>
  C2. For a strategy that requires the eigendecomposition, a well-formed per-sample
  gradient batch of shape \<^verbatim>\<open>(batch, r, c)\<close> and eigenvectors in the storage that fit it,
  \<^verbatim>\<open>_update_lambda_matrix\<close> with \<^verbatim>\<open>use_iterative_lambda_aggregation\<close> set gives the same
  result and the same storage as with it cleared: both succeed, both add the sum over the
  batch of the squared projections \<open>(Q\<^sub>G\<^sup>T s Q\<^sub>A)\<^sup>2\<close> to the Lambda matrix, over exact
  arithmetic, and both add the batch size to the processed count.
\<close>

theorem iterative_equals_batched:
  assumes "requires_eigendecomposition_for_lambda m (strategy (factor_args m))"
    and "wf_batch g"
    and "activation_eigenvectors st = Some qa"
    and "gradient_eigenvectors st = Some qg"
    and "eigenvectors_fit qa qg g"
    and "lambda_state_fits g st"
  shows "update_lambda_matrix (set_iterative True m) g st =
      update_lambda_matrix (set_iterative False m) g st \<and>
    fst (update_lambda_matrix (set_iterative b m) g st) = None \<and>
    map_option item
        (num_lambda_processed (fst (snd (update_lambda_matrix (set_iterative b m) g st)))) =
      Some (processed_before st + of_nat (size0 g)) \<and>
    map_option rows (lambda_matrix (fst (snd (update_lambda_matrix (set_iterative b m) g st)))) =
      Some (madd (lambda_before g st) (total_projection qa qg g))"
proof -
  define post where "post =
     (if num_lambda_processed st = None
      then st\<lparr>num_lambda_processed :=
                Some (add_num (zeros_num default_device) (of_nat (size0 g))),
              lambda_matrix :=
                Some ((zeros_matrix (size1 g) (size2 g) (dtype g) (device g))
                        \<lparr>rows := madd (zeros_rows (size1 g) (size2 g))
                                   (total_projection qa qg g)\<rparr>),
              activation_eigenvectors := Some (to_dtype_device (dtype g) (device g) qa),
              gradient_eigenvectors := Some (to_dtype_device (dtype g) (device g) qg)\<rparr>
      else st\<lparr>num_lambda_processed :=
                map_option (\<lambda>n. add_num n (of_nat (size0 g))) (num_lambda_processed st),
              lambda_matrix :=
                map_option (\<lambda>l. l\<lparr>rows := madd (rows l) (total_projection qa qg g)\<rparr>)
                  (lambda_matrix st)\<rparr>)"
  have mode: "update_lambda_matrix (set_iterative c m) g st = (None, (post, g)) \<and>
      map_option item (num_lambda_processed post) =
        Some (processed_before st + of_nat (size0 g)) \<and>
      map_option rows (lambda_matrix post) =
        Some (madd (lambda_before g st) (total_projection qa qg g))" for c
    using update_lambda_any_mode[OF assms, of c] unfolding post_def by blast
  from mode[of True] mode[of False]
  have "update_lambda_matrix (set_iterative True m) g st =
      update_lambda_matrix (set_iterative False m) g st"
    by simp
  with mode[of b] show ?thesis
    by simp
qed

theorem iterative_equals_batched_witness:
  "requires_eigendecomposition_for_lambda example_module (strategy (factor_args example_module)) \<and>
   wf_batch example_gradient \<and>
   activation_eigenvectors example_eigen_storage = Some example_qa \<and>
   gradient_eigenvectors example_eigen_storage = Some example_qg \<and>
   eigenvectors_fit example_qa example_qg example_gradient \<and>
   lambda_state_fits example_gradient example_eigen_storage \<and>
   madd (lambda_before example_gradient example_eigen_storage)
     (total_projection example_qa example_qg example_gradient) = [[80, 40]] \<and>
   update_lambda_matrix (set_iterative True example_module) example_gradient
       example_eigen_storage =
     update_lambda_matrix (set_iterative False example_module) example_gradient
       example_eigen_storage \<and>
   map_option rows (lambda_matrix (fst (snd
       (update_lambda_matrix (set_iterative True example_module) example_gradient
          example_eigen_storage)))) = Some [[80, 40]] \<and>
   map_option item (num_lambda_processed (fst (snd
       (update_lambda_matrix (set_iterative True example_module) example_gradient
          example_eigen_storage)))) = Some 2"
proof -
  have h: "requires_eigendecomposition_for_lambda example_module
      (strategy (factor_args example_module))"
    "wf_batch example_gradient"
    "activation_eigenvectors example_eigen_storage = Some example_qa"
    "gradient_eigenvectors example_eigen_storage = Some example_qg"
    "eigenvectors_fit example_qa example_qg example_gradient"
    "lambda_state_fits example_gradient example_eigen_storage"
    by code_simp+
  have v: "madd (lambda_before example_gradient example_eigen_storage)
     (total_projection example_qa example_qg example_gradient) = [[80, 40]]"
    by code_simp
  have c: "processed_before example_eigen_storage + of_nat (size0 example_gradient) = 2"
    by code_simp
  note w = iterative_equals_batched[OF h, of True]
  from w have "update_lambda_matrix (set_iterative True example_module) example_gradient
       example_eigen_storage =
     update_lambda_matrix (set_iterative False example_module) example_gradient
       example_eigen_storage"
    by blast
  moreover from w have "map_option rows (lambda_matrix (fst (snd
       (update_lambda_matrix (set_iterative True example_module) example_gradient
          example_eigen_storage)))) = Some [[80, 40]]"
    unfolding v by blast
  moreover from w have "map_option item (num_lambda_processed (fst (snd
       (update_lambda_matrix (set_iterative True example_module) example_gradient
          example_eigen_storage)))) = Some 2"
    unfolding c by blast
  ultimately show ?thesis using h v by blast
qed









end
